theory Spec2Isabelle
  imports Complex_Main
begin

section \<open>Numeric helpers of the Python and NumPy runtime\<close>

text \<open>
  Sensor quantities are Python floats. They are modelled as reals, and a missing value
  (NaN in a table) as an absent value, never as a number. Constants and comparisons are
  taken exactly. Where a computed quantity is rounded to decimals and returned (the soil
  health score, the evapotranspiration estimate), the rounding error of the double
  arithmetic that produced it is an explicit argument of the function, since it decides
  the side to which a value on or next to a tie is rounded. In the data generator the
  error of adding a noise draw to a baseline is part of the draw, which is arbitrary.
\<close>

definition clip :: "real \<Rightarrow> real \<Rightarrow> real \<Rightarrow> real" where
  \<comment> \<open>\<open>np.clip(x, lo, hi)\<close>\<close>
  "clip x lo hi = min (max x lo) hi"

section \<open>Water quality grade (generate\_synthetic\_data.py, generate\_water\_data)\<close>

text \<open>
  The rubric is written inline in the record loop of \<open>generate_water_data\<close>, on the
  values \<open>ph\<close>, \<open>tds\<close>, \<open>turbidity\<close>, \<open>dissolved_o2\<close> and \<open>nitrate\<close> as drawn (before they
  are rounded for the table). Each \<open>if\<close>/\<open>elif\<close> pair is one addend.
\<close>

definition water_ph_points :: "real \<Rightarrow> int" where
  "water_ph_points ph =
     (if 6.5 \<le> ph \<and> ph \<le> 8.5 then 20 else if 6.0 \<le> ph \<and> ph \<le> 9.0 then 10 else 0)"

definition water_tds_points :: "real \<Rightarrow> int" where
  "water_tds_points tds = (if tds < 500 then 20 else if tds < 1000 then 10 else 0)"

definition water_turbidity_points :: "real \<Rightarrow> int" where
  "water_turbidity_points turbidity =
     (if turbidity < 5 then 20 else if turbidity < 10 then 10 else 0)"

definition water_do_points :: "real \<Rightarrow> int" where
  "water_do_points dissolved_o2 =
     (if dissolved_o2 > 6 then 20 else if dissolved_o2 > 4 then 10 else 0)"

definition water_nitrate_points :: "real \<Rightarrow> int" where
  "water_nitrate_points nitrate = (if nitrate < 10 then 20 else if nitrate < 45 then 10 else 0)"

definition water_score :: "real \<Rightarrow> real \<Rightarrow> real \<Rightarrow> real \<Rightarrow> real \<Rightarrow> int" where
  "water_score ph tds turbidity dissolved_o2 nitrate =
     0 + water_ph_points ph + water_tds_points tds + water_turbidity_points turbidity
       + water_do_points dissolved_o2 + water_nitrate_points nitrate"

definition grade_of_score :: "int \<Rightarrow> string" where
  "grade_of_score score =
     (if score \<ge> 80 then ''A''
      else if score \<ge> 60 then ''B''
      else if score \<ge> 40 then ''C''
      else if score \<ge> 20 then ''D''
      else ''F'')"

definition water_grade :: "real \<Rightarrow> real \<Rightarrow> real \<Rightarrow> real \<Rightarrow> real \<Rightarrow> string" where
  "water_grade ph tds turbidity dissolved_o2 nitrate =
     grade_of_score (water_score ph tds turbidity dissolved_o2 nitrate)"

section \<open>Soil health category (preprocessing.py, categorize\_health\_score)\<close>

definition categorize_health_score :: "real \<Rightarrow> string" where
  "categorize_health_score score =
     (if score \<ge> 80 then ''Excellent''
      else if score \<ge> 60 then ''Good''
      else if score \<ge> 40 then ''Fair''
      else ''Poor'')"

section \<open>Soil health score (preprocessing.py, generate\_soil\_health\_score)\<close>

text \<open>
  Python's \<open>round(x, ndigits)\<close> and \<open>np.round\<close> round to the nearest multiple of
  \<open>10 ^ -ndigits\<close>, a tie going to the even neighbour.
\<close>

definition round_half_even :: "real \<Rightarrow> int" where
  "round_half_even x =
     (let f = \<lfloor>x\<rfloor>; r = x - of_int f
      in if r < 1/2 then f else if r > 1/2 then f + 1 else if even f then f else f + 1)"

definition py_round :: "real \<Rightarrow> nat \<Rightarrow> real" where
  "py_round x ndigits = of_int (round_half_even (x * 10 ^ ndigits)) / 10 ^ ndigits"

text \<open>
  \<open>row\<close> is one row of the soil table, indexed by column name; \<open>row["c"]\<close> raises
  \<open>KeyError\<close> when the column is absent, which is the value \<open>None\<close> here.

  The variable \<open>score\<close> is accumulated in double arithmetic. \<open>delta\<close> is the rounding error
  that has accumulated when the value is rounded to one decimal: what \<open>round(score, 1)\<close>
  rounds is the exact sum of the components plus \<open>delta\<close>. On sensor-range values the error
  is of the order of 1e-14. A double that is the nearest one to a decimal is identified
  with that decimal.
\<close>

definition n_score :: "real \<Rightarrow> real" where
  "n_score n = max 0 (10 - \<bar>n - 80\<bar> / 8)"

definition p_score :: "real \<Rightarrow> real" where
  "p_score p = max 0 (10 - \<bar>p - 45\<bar> / 5)"

definition k_score :: "real \<Rightarrow> real" where
  "k_score k = max 0 (10 - \<bar>k - 60\<bar> / 6)"

definition ph_points :: "real \<Rightarrow> real" where
  "ph_points ph =
     (if 6.0 \<le> ph \<and> ph \<le> 7.5 then 20
      else if 5.5 \<le> ph \<and> ph \<le> 8.0 then 12
      else if 5.0 \<le> ph \<and> ph \<le> 8.5 then 5
      else 0)"

definition om_points :: "real \<Rightarrow> real" where
  "om_points om =
     (if 3.0 \<le> om \<and> om \<le> 6.0 then 20 else if 2.0 \<le> om \<and> om \<le> 8.0 then 12 else 5)"

definition moisture_points :: "real \<Rightarrow> real" where
  "moisture_points m = (if 20 \<le> m \<and> m \<le> 45 then 15 else if 10 \<le> m \<and> m \<le> 60 then 8 else 3)"

definition ec_points :: "real \<Rightarrow> real" where
  "ec_points ec = (if 0.5 \<le> ec \<and> ec \<le> 2.5 then 15 else if 0.2 \<le> ec \<and> ec \<le> 4.0 then 8 else 2)"

definition soil_score_sum :: "real \<Rightarrow> real \<Rightarrow> real \<Rightarrow> real \<Rightarrow> real \<Rightarrow> real \<Rightarrow> real \<Rightarrow> real" where
  \<comment> \<open>the variable \<open>score\<close> when the \<open>return\<close> is reached\<close>
  "soil_score_sum n p k ph om m ec =
     0 + (n_score n + p_score p + k_score k) + ph_points ph + om_points om
       + moisture_points m + ec_points ec"

definition generate_soil_health_score :: "real \<Rightarrow> (string \<rightharpoonup> real) \<Rightarrow> real option" where
  "generate_soil_health_score delta row =
     (case row ''nitrogen_mg_kg'' of None \<Rightarrow> None | Some n \<Rightarrow>
      case row ''phosphorus_mg_kg'' of None \<Rightarrow> None | Some p \<Rightarrow>
      case row ''potassium_mg_kg'' of None \<Rightarrow> None | Some k \<Rightarrow>
      case row ''ph'' of None \<Rightarrow> None | Some ph \<Rightarrow>
      case row ''organic_matter_pct'' of None \<Rightarrow> None | Some om \<Rightarrow>
      case row ''moisture_pct'' of None \<Rightarrow> None | Some m \<Rightarrow>
      case row ''ec_mscm'' of None \<Rightarrow> None | Some ec \<Rightarrow>
        Some (clip (py_round (soil_score_sum n p k ph om m ec + delta) 1) 0 100))"

text \<open>
  The score as the specification words it: the component sum clamped to 0..100, with no
  rounding step. It is compared with the function above.
\<close>

definition spec_soil_health_score ::
  "real \<Rightarrow> real \<Rightarrow> real \<Rightarrow> real \<Rightarrow> real \<Rightarrow> real \<Rightarrow> real \<Rightarrow> real" where
  "spec_soil_health_score n p k ph om m ec =
     clip (max 0 (10 - \<bar>n - 80\<bar> / 8) + max 0 (10 - \<bar>p - 45\<bar> / 5) + max 0 (10 - \<bar>k - 60\<bar> / 6)
           + ph_points ph + om_points om + moisture_points m + ec_points ec) 0 100"

text \<open>
  Two sample rows. In the first every field is at its ideal value except nitrogen, one
  unit above; each intermediate value of its score is a multiple of 1/8 below 128, which a
  double holds exactly. In the second phosphorus is 2.25 below its ideal, and the exact
  sum 99.55 is a tie between 99.5 and 99.6.
\<close>

definition soil_row_tie :: "string \<rightharpoonup> real" where
  "soil_row_tie = [''nitrogen_mg_kg'' \<mapsto> 80, ''phosphorus_mg_kg'' \<mapsto> 42.75,
                   ''potassium_mg_kg'' \<mapsto> 60, ''ph'' \<mapsto> 6.5, ''organic_matter_pct'' \<mapsto> 4,
                   ''moisture_pct'' \<mapsto> 30, ''ec_mscm'' \<mapsto> 1.5]"


section \<open>Nutrient deficiency diagnosis (nutrient\_deficiency.py, diagnose)\<close>

record thresholds =
  low :: real
  moderate :: real
  adequate :: real

record deficiency_thresholds =
  nitrogen :: thresholds
  phosphorus :: thresholds
  potassium :: thresholds
  ph_low :: real
  ph_high :: real

definition DEFICIENCY_THRESHOLDS :: deficiency_thresholds where
  "DEFICIENCY_THRESHOLDS =
     \<lparr>nitrogen = \<lparr>low = 40, moderate = 60, adequate = 80\<rparr>,
      phosphorus = \<lparr>low = 15, moderate = 25, adequate = 40\<rparr>,
      potassium = \<lparr>low = 25, moderate = 35, adequate = 50\<rparr>,
      ph_low = 5.5,
      ph_high = 8.0\<rparr>"

record amendment_rec =
  amendment :: string
  dosage :: string
  timing :: string

datatype amendment_key = N_deficient | P_deficient | K_deficient | pH_low | pH_high

text \<open>
  The amendment table, keyed by deficiency kind. The two chemical formulas carry
  subscript digits in the source; they are written with plain digits here.
\<close>

fun AMENDMENT_RECOMMENDATIONS :: "amendment_key \<Rightarrow> amendment_rec list" where
  "AMENDMENT_RECOMMENDATIONS N_deficient =
     [\<lparr>amendment = ''Urea (46-0-0)'', dosage = ''60-100 kg/ha'',
       timing = ''Split application: 50% at sowing, 50% at 30 days''\<rparr>,
      \<lparr>amendment = ''Ammonium Sulfate (21-0-0-24S)'', dosage = ''120-180 kg/ha'',
       timing = ''Pre-sowing or side-dress''\<rparr>,
      \<lparr>amendment = ''Neem-coated Urea'', dosage = ''60-100 kg/ha'',
       timing = ''Slow release, apply at sowing''\<rparr>]"
| "AMENDMENT_RECOMMENDATIONS P_deficient =
     [\<lparr>amendment = ''DAP (18-46-0)'', dosage = ''50-80 kg/ha'',
       timing = ''Apply at sowing as basal dose''\<rparr>,
      \<lparr>amendment = ''SSP (0-16-0)'', dosage = ''150-250 kg/ha'',
       timing = ''Basal application''\<rparr>,
      \<lparr>amendment = ''Rock Phosphate'', dosage = ''200-400 kg/ha'',
       timing = ''Pre-sowing, works best in acidic soils''\<rparr>]"
| "AMENDMENT_RECOMMENDATIONS K_deficient =
     [\<lparr>amendment = ''MOP - Muriate of Potash (0-0-60)'', dosage = ''40-80 kg/ha'',
       timing = ''Basal or split application''\<rparr>,
      \<lparr>amendment = ''SOP - Sulfate of Potash (0-0-50)'', dosage = ''50-100 kg/ha'',
       timing = ''For chloride-sensitive crops''\<rparr>,
      \<lparr>amendment = ''Wood Ash'', dosage = ''500-1000 kg/ha'',
       timing = ''Pre-sowing, also raises pH''\<rparr>]"
| "AMENDMENT_RECOMMENDATIONS pH_low =
     [\<lparr>amendment = ''Agricultural Lime (CaCO3)'', dosage = ''2-4 tons/ha'',
       timing = ''Apply 2-3 months before sowing''\<rparr>,
      \<lparr>amendment = ''Dolomite Lime'', dosage = ''1.5-3 tons/ha'',
       timing = ''Also supplies Mg, apply before plowing''\<rparr>]"
| "AMENDMENT_RECOMMENDATIONS pH_high =
     [\<lparr>amendment = ''Gypsum (CaSO4)'', dosage = ''2-5 tons/ha'',
       timing = ''Apply before plowing season''\<rparr>,
      \<lparr>amendment = ''Sulfur (Eleite)'', dosage = ''200-500 kg/ha'',
       timing = ''Apply and incorporate into soil''\<rparr>,
      \<lparr>amendment = ''Organic Matter / Compost'', dosage = ''10-20 tons/ha'',
       timing = ''Regular annual application''\<rparr>]"

record deficiency =
  nutrient :: string
  reading_value :: real
  severity :: string

record diagnosis =
  deficiencies :: "deficiency list"
  recommendations :: "amendment_rec list"
  severity :: string

definition dict_get :: "(string \<rightharpoonup> real) \<Rightarrow> string \<Rightarrow> real \<Rightarrow> real" where
  \<comment> \<open>\<open>d.get(key, default)\<close>\<close>
  "dict_get d key dflt = (case d key of Some v \<Rightarrow> v | None \<Rightarrow> dflt)"

definition flag :: "string \<Rightarrow> real \<Rightarrow> string \<Rightarrow> amendment_key \<Rightarrow> diagnosis \<Rightarrow> diagnosis" where
  \<comment> \<open>the \<open>append\<close> to the deficiencies and the \<open>extend\<close> of the recommendations\<close>
  "flag name v sev key result =
     result\<lparr>deficiencies := deficiencies result
               @ [\<lparr>nutrient = name, reading_value = v, severity = sev\<rparr>],
            recommendations := recommendations result @ AMENDMENT_RECOMMENDATIONS key\<rparr>"

definition flag_nitrogen :: "real \<Rightarrow> diagnosis \<Rightarrow> diagnosis" where
  "flag_nitrogen n result =
     (if n < moderate (nitrogen DEFICIENCY_THRESHOLDS)
      then flag ''Nitrogen'' n
             (if n < low (nitrogen DEFICIENCY_THRESHOLDS) then ''Critical'' else ''Low'')
             N_deficient result
      else result)"

definition flag_phosphorus :: "real \<Rightarrow> diagnosis \<Rightarrow> diagnosis" where
  "flag_phosphorus p result =
     (if p < moderate (phosphorus DEFICIENCY_THRESHOLDS)
      then flag ''Phosphorus'' p
             (if p < low (phosphorus DEFICIENCY_THRESHOLDS) then ''Critical'' else ''Low'')
             P_deficient result
      else result)"

definition flag_potassium :: "real \<Rightarrow> diagnosis \<Rightarrow> diagnosis" where
  "flag_potassium k result =
     (if k < moderate (potassium DEFICIENCY_THRESHOLDS)
      then flag ''Potassium'' k
             (if k < low (potassium DEFICIENCY_THRESHOLDS) then ''Critical'' else ''Low'')
             K_deficient result
      else result)"

definition flag_ph :: "real \<Rightarrow> diagnosis \<Rightarrow> diagnosis" where
  "flag_ph ph result =
     (if ph < ph_low DEFICIENCY_THRESHOLDS
      then flag ''pH (Acidic)'' ph ''Imbalanced'' pH_low result
      else if ph > ph_high DEFICIENCY_THRESHOLDS
      then flag ''pH (Alkaline)'' ph ''Imbalanced'' pH_high result
      else result)"

definition overall_severity :: "diagnosis \<Rightarrow> diagnosis" where
  "overall_severity result =
     (if deficiencies result \<noteq> []
      then (let severities = map deficiency.severity (deficiencies result)
            in if ''Critical'' \<in> set severities
               then result\<lparr>severity := ''critical''\<rparr>
               else result\<lparr>severity := ''moderate''\<rparr>)
      else result)"

definition diagnose :: "(string \<rightharpoonup> real) \<Rightarrow> diagnosis" where
  "diagnose sensor_reading =
     (let result = \<lparr>deficiencies = [], recommendations = [], severity = ''none''\<rparr>;
          n = dict_get sensor_reading ''nitrogen_mg_kg'' 0;
          p = dict_get sensor_reading ''phosphorus_mg_kg'' 0;
          k = dict_get sensor_reading ''potassium_mg_kg'' 0;
          ph = dict_get sensor_reading ''ph'' 7.0
      in overall_severity
           (flag_ph ph (flag_potassium k (flag_phosphorus p (flag_nitrogen n result)))))"

text \<open>
  The entries a nutrient value and a pH value contribute to the deficiency list, and two
  sample readings; they are used to state and check the properties of \<open>diagnose\<close>.
\<close>

definition nutrient_entries :: "string \<Rightarrow> real \<Rightarrow> real \<Rightarrow> real \<Rightarrow> deficiency list" where
  "nutrient_entries name v lo md =
     (if v < md then [\<lparr>nutrient = name, reading_value = v,
                        severity = (if v < lo then ''Critical'' else ''Low'')\<rparr>] else [])"

definition ph_entries :: "real \<Rightarrow> deficiency list" where
  "ph_entries ph =
     (if ph < 5.5 then [\<lparr>nutrient = ''pH (Acidic)'', reading_value = ph, severity = ''Imbalanced''\<rparr>]
      else if ph > 8 then [\<lparr>nutrient = ''pH (Alkaline)'', reading_value = ph, severity = ''Imbalanced''\<rparr>]
      else [])"

definition reading_n50 :: "string \<rightharpoonup> real" where
  "reading_n50 = [''nitrogen_mg_kg'' \<mapsto> 50, ''phosphorus_mg_kg'' \<mapsto> 30,
                  ''potassium_mg_kg'' \<mapsto> 40, ''ph'' \<mapsto> 6.5]"

definition reading_ph_only :: "string \<rightharpoonup> real" where
  "reading_ph_only = [''ph'' \<mapsto> 6.8, ''potassium_mg_kg'' \<mapsto> 55, ''phosphorus_mg_kg'' \<mapsto> 42]"

section \<open>Evapotranspiration estimate (preprocessing.py, estimate\_eto)\<close>

text \<open>
  The product is computed in double arithmetic. \<open>delta\<close> is the rounding error the double
  arithmetic has accumulated when the value is rounded to two decimals, taken against the
  exact product.
\<close>

definition estimate_eto :: "real \<Rightarrow> real \<Rightarrow> real \<Rightarrow> real \<Rightarrow> real \<Rightarrow> real" where
  "estimate_eto delta temp_c humidity_pct solar_rad wind_speed =
     (let eto = 0.0023 * (temp_c + 17.8) * sqrt \<bar>solar_rad + 1\<bar>
                  * (1 - humidity_pct / 100) * (1 + 0.01 * wind_speed) + delta
      in py_round (clip eto 0 15) 2)"


section \<open>Irrigation need (irrigation\_optimizer.py, create\_irrigation\_dataset)\<close>

text \<open>
  The three derived columns are computed column-wise; the functions below give the value
  in one row of the merged table from the columns it reads. A soil type that is not a
  key of \<open>field_capacity\<close> maps to a missing value, which \<open>fillna(35)\<close> replaces.
\<close>

definition field_capacity :: "string \<rightharpoonup> real" where
  "field_capacity =
     map_of [(''Loamy'', 40), (''Clay'', 50), (''Sandy'', 20), (''Silt'', 45),
             (''Clay Loam'', 48), (''Sandy Loam'', 28), (''Peaty'', 60)]"

definition field_capacity_col :: "string \<Rightarrow> real" where
  \<comment> \<open>\<open>merged["soil_type"].map(field_capacity).fillna(35)\<close>\<close>
  "field_capacity_col soil_type = (case field_capacity soil_type of Some c \<Rightarrow> c | None \<Rightarrow> 35)"

definition moisture_deficit :: "string \<Rightarrow> real \<Rightarrow> real" where
  "moisture_deficit soil_type moisture_pct = field_capacity_col soil_type * 0.5 - moisture_pct"

definition irrigation_need_mm :: "string \<Rightarrow> real \<Rightarrow> real \<Rightarrow> real \<Rightarrow> real" where
  "irrigation_need_mm soil_type moisture_pct evapotranspiration_est rainfall_mm =
     clip (moisture_deficit soil_type moisture_pct + evapotranspiration_est * 5
             - rainfall_mm * 0.8) 0 50"

section \<open>Irrigation suitability (water\_quality.py, assess\_irrigation\_suitability)\<close>

record limits =
  min_l :: "real option"
  max_l :: "real option"
  unit_l :: string

text \<open>The dictionary keeps its insertion order, which is the order of the loop.\<close>

definition IRRIGATION_LIMITS :: "(string \<times> limits) list" where
  "IRRIGATION_LIMITS =
     [(''ph'', \<lparr>min_l = Some 6.0, max_l = Some 8.5, unit_l = ''''\<rparr>),
      (''tds_ppm'', \<lparr>min_l = None, max_l = Some 2000, unit_l = ''ppm''\<rparr>),
      (''chloride_mg_l'', \<lparr>min_l = None, max_l = Some 350, unit_l = ''mg/L''\<rparr>),
      (''sulfate_mg_l'', \<lparr>min_l = None, max_l = Some 400, unit_l = ''mg/L''\<rparr>),
      (''hardness_mg_l'', \<lparr>min_l = None, max_l = Some 500, unit_l = ''mg/L''\<rparr>)]"

text \<open>
  The two issue messages are f-strings. How Python prints a number is not modelled: the
  rendering of a reading's value and of a limit are the parameters \<open>fv\<close> and \<open>fl\<close>.
\<close>

definition exceeds_msg :: "(real \<Rightarrow> string) \<Rightarrow> (real \<Rightarrow> string) \<Rightarrow> string \<Rightarrow> real \<Rightarrow> string \<Rightarrow> real \<Rightarrow> string" where
  "exceeds_msg fv fl param v u mx =
     param @ '' ('' @ fv v @ u @ '') exceeds limit ('' @ fl mx @ u @ '')''"

definition below_msg :: "(real \<Rightarrow> string) \<Rightarrow> (real \<Rightarrow> string) \<Rightarrow> string \<Rightarrow> real \<Rightarrow> string \<Rightarrow> real \<Rightarrow> string" where
  "below_msg fv fl param v u mn =
     param @ '' ('' @ fv v @ u @ '') below minimum ('' @ fl mn @ u @ '')''"

definition check_max :: "(real \<Rightarrow> string) \<Rightarrow> (real \<Rightarrow> string) \<Rightarrow> string \<Rightarrow> limits \<Rightarrow> real \<Rightarrow> string list \<times> bool \<Rightarrow> string list \<times> bool" where
  \<comment> \<open>\<open>if "max" in limits and value > limits["max"]\<close>\<close>
  "check_max fv fl param lims v st =
     (case st of (issues, suitable) \<Rightarrow>
        (case max_l lims of
           Some mx \<Rightarrow> if v > mx then (issues @ [exceeds_msg fv fl param v (unit_l lims) mx], False)
                      else (issues, suitable)
         | None \<Rightarrow> (issues, suitable)))"

definition check_min :: "(real \<Rightarrow> string) \<Rightarrow> (real \<Rightarrow> string) \<Rightarrow> string \<Rightarrow> limits \<Rightarrow> real \<Rightarrow> string list \<times> bool \<Rightarrow> string list \<times> bool" where
  \<comment> \<open>\<open>if "min" in limits and value < limits["min"]\<close>\<close>
  "check_min fv fl param lims v st =
     (case st of (issues, suitable) \<Rightarrow>
        (case min_l lims of
           Some mn \<Rightarrow> if v < mn then (issues @ [below_msg fv fl param v (unit_l lims) mn], False)
                      else (issues, suitable)
         | None \<Rightarrow> (issues, suitable)))"

definition check_param :: "(real \<Rightarrow> string) \<Rightarrow> (real \<Rightarrow> string) \<Rightarrow> (string \<rightharpoonup> real) \<Rightarrow> string \<times> limits \<Rightarrow> string list \<times> bool \<Rightarrow> string list \<times> bool" where
  \<comment> \<open>one turn of the loop over \<open>IRRIGATION_LIMITS.items()\<close>\<close>
  "check_param fv fl reading item st =
     (case item of (param, lims) \<Rightarrow>
        (case reading param of
           None \<Rightarrow> st
         | Some v \<Rightarrow> check_min fv fl param lims v (check_max fv fl param lims v st)))"

record suitability =
  suitable :: bool
  issues :: "string list"
  recommendation :: string

definition assess_irrigation_suitability :: "(real \<Rightarrow> string) \<Rightarrow> (real \<Rightarrow> string) \<Rightarrow> (string \<rightharpoonup> real) \<Rightarrow> suitability" where
  "assess_irrigation_suitability fv fl reading =
     (case fold (check_param fv fl reading) IRRIGATION_LIMITS ([], True) of
        (iss, suit) \<Rightarrow>
          \<lparr>suitable = suit, issues = iss,
           recommendation = (if suit then ''Suitable for irrigation''
                             else ''Treatment needed before irrigation'')\<rparr>)"

text \<open>
  The bounds as the specification lists them: a parameter the reading does not carry
  violates nothing.
\<close>

definition above :: "(string \<rightharpoonup> real) \<Rightarrow> string \<Rightarrow> real \<Rightarrow> bool" where
  "above reading param mx = (case reading param of Some v \<Rightarrow> v > mx | None \<Rightarrow> False)"

definition below :: "(string \<rightharpoonup> real) \<Rightarrow> string \<Rightarrow> real \<Rightarrow> bool" where
  "below reading param mn = (case reading param of Some v \<Rightarrow> v < mn | None \<Rightarrow> False)"

definition violated_bounds :: "(string \<rightharpoonup> real) \<Rightarrow> bool list" where
  "violated_bounds reading =
     [above reading ''ph'' 8.5, below reading ''ph'' 6.0, above reading ''tds_ppm'' 2000,
      above reading ''chloride_mg_l'' 350, above reading ''sulfate_mg_l'' 400,
      above reading ''hardness_mg_l'' 500]"

definition param_issues :: "(real \<Rightarrow> string) \<Rightarrow> (real \<Rightarrow> string) \<Rightarrow> (string \<rightharpoonup> real) \<Rightarrow> string \<times> limits \<Rightarrow> string list" where
  \<comment> \<open>the messages one parameter adds\<close>
  "param_issues fv fl reading item =
     (case item of (param, lims) \<Rightarrow>
        (case reading param of
           None \<Rightarrow> []
         | Some v \<Rightarrow>
             (case max_l lims of
                Some mx \<Rightarrow> if v > mx then [exceeds_msg fv fl param v (unit_l lims) mx] else []
              | None \<Rightarrow> [])
           @ (case min_l lims of
                Some mn \<Rightarrow> if v < mn then [below_msg fv fl param v (unit_l lims) mn] else []
              | None \<Rightarrow> [])))"

text \<open>A sample reading, with pH and sulfate out of bounds.\<close>

definition canal_sample :: "string \<rightharpoonup> real" where
  "canal_sample = [''ph'' \<mapsto> 9.1, ''tds_ppm'' \<mapsto> 450, ''chloride_mg_l'' \<mapsto> 70,
                   ''sulfate_mg_l'' \<mapsto> 455, ''hardness_mg_l'' \<mapsto> 180]"

section \<open>Synthetic data generator (generate\_synthetic\_data.py)\<close>

subsection \<open>Zone profiles, time and season\<close>

datatype zone = Zone_1 | Zone_2 | Zone_3 | Zone_4 | Zone_5 | Zone_6 | Zone_7 | Zone_8

record zone_profile =
  zp_soil_type :: string
  base_pH :: real
  base_N :: real
  base_P :: real
  base_K :: real
  base_moisture :: real

fun ZONE_PROFILES :: "zone \<Rightarrow> zone_profile" where
  "ZONE_PROFILES Zone_1 = \<lparr>zp_soil_type = ''Loamy'', base_pH = 6.5, base_N = 80, base_P = 45, base_K = 60, base_moisture = 35\<rparr>"
| "ZONE_PROFILES Zone_2 = \<lparr>zp_soil_type = ''Clay'', base_pH = 7.2, base_N = 60, base_P = 35, base_K = 50, base_moisture = 45\<rparr>"
| "ZONE_PROFILES Zone_3 = \<lparr>zp_soil_type = ''Sandy'', base_pH = 5.8, base_N = 40, base_P = 20, base_K = 35, base_moisture = 15\<rparr>"
| "ZONE_PROFILES Zone_4 = \<lparr>zp_soil_type = ''Silt'', base_pH = 6.8, base_N = 70, base_P = 40, base_K = 55, base_moisture = 40\<rparr>"
| "ZONE_PROFILES Zone_5 = \<lparr>zp_soil_type = ''Loamy'', base_pH = 6.2, base_N = 90, base_P = 50, base_K = 70, base_moisture = 32\<rparr>"
| "ZONE_PROFILES Zone_6 = \<lparr>zp_soil_type = ''Clay Loam'', base_pH = 7.0, base_N = 55, base_P = 30, base_K = 45, base_moisture = 42\<rparr>"
| "ZONE_PROFILES Zone_7 = \<lparr>zp_soil_type = ''Sandy Loam'', base_pH = 6.0, base_N = 50, base_P = 25, base_K = 40, base_moisture = 22\<rparr>"
| "ZONE_PROFILES Zone_8 = \<lparr>zp_soil_type = ''Peaty'', base_pH = 5.5, base_N = 100, base_P = 55, base_K = 75, base_moisture = 55\<rparr>"

text \<open>
  A timestamp is the number of whole hours after \<open>start_date\<close>, 2024-01-01 00:00. The
  year 2024 has 366 days; the horizon of two times 365 days ends inside 2025.
\<close>

definition tm_yday :: "nat \<Rightarrow> nat" where
  "tm_yday ts = (let d = ts div 24 in if d < 366 then d + 1 else d - 366 + 1)"

definition tm_hour :: "nat \<Rightarrow> nat" where
  "tm_hour ts = ts mod 24"

definition seasonal :: "nat \<Rightarrow> real" where
  "seasonal day_of_year = 0.5 + 0.5 * sin (2 * pi * (real day_of_year - 80) / 365)"

definition moisture_seasonal :: "nat \<Rightarrow> real" where
  "moisture_seasonal day_of_year =
     max 0.1 (0.3 + 0.7 * sin (2 * pi * (real day_of_year - 150) / 365))"

definition diurnal :: "nat \<Rightarrow> real" where
  "diurnal hour = 0.5 + 0.5 * sin (2 * pi * (real hour - 6) / 24)"

subsection \<open>Tables\<close>

text \<open>
  A \<open>DataFrame\<close> is its column labels and its rows. \<open>pd.DataFrame(records)\<close> takes the
  labels from the records, so a frame built from no records has no columns.

  \<open>df.loc[mask, col] = np.nan\<close> writes the missing marker into column \<open>col\<close> of the rows
  the mask selects. pandas, which is not part of this repository, refuses the assignment
  when the frame has no rows and \<open>col\<close> is not one of its columns: its indexing code raises
  \<open>ValueError("cannot set a frame with no defined index and a scalar")\<close>. The rows are
  typed records here, so a column that is absent from a frame with rows cannot occur.
\<close>

datatype py_error = ValueError

record 'r frame =
  columns :: "string list"
  rows :: "'r list"

definition DataFrame :: "string list \<Rightarrow> 'r list \<Rightarrow> 'r frame" where
  "DataFrame keys records = \<lparr>columns = (if records = [] then [] else keys), rows = records\<rparr>"

definition loc_set_nan :: "bool list \<Rightarrow> string \<Rightarrow> ('r \<Rightarrow> 'r) \<Rightarrow> 'r frame \<Rightarrow> py_error + 'r frame" where
  "loc_set_nan msk col set_nan df =
     (if col \<notin> set (columns df) \<and> rows df = [] then Inl ValueError
      else Inr (df\<lparr>rows := map (\<lambda>(hit, r). if hit then set_nan r else r) (zip msk (rows df))\<rparr>))"

fun inject_missing :: "(string \<times> ('r \<Rightarrow> 'r)) list \<Rightarrow> (string \<Rightarrow> nat \<Rightarrow> real) \<Rightarrow> real \<Rightarrow> nat \<Rightarrow> 'r frame \<Rightarrow> py_error + 'r frame" where
  \<comment> \<open>\<open>for col in [...]: mask = np.random.random(n_records) < rate; df.loc[mask, col] = np.nan\<close>\<close>
  "inject_missing [] u rate n_records df = Inr df"
| "inject_missing ((col, set_nan) # cols) u rate n_records df =
     (case loc_set_nan (map (\<lambda>i. u col i < rate) [0..<n_records]) col set_nan df of
        Inl e \<Rightarrow> Inl e
      | Inr df' \<Rightarrow> inject_missing cols u rate n_records df')"

subsection \<open>Soil sensor data (generate\_soil\_data)\<close>

text \<open>
  The generator draws from NumPy's global random state. The draws are inputs here: the
  \<open>i\<close>-th hour offset, zone and group of Gaussian draws, and for each column with injected
  dropouts the \<open>i\<close>-th uniform draw. Column \<open>c\<close> of the soil table is the field \<open>s_c\<close>; a cell
  holding the missing marker is \<open>None\<close>.
\<close>

record soil_noise =
  z_N :: real
  z_P :: real
  z_K :: real
  z_pH :: real
  z_OM :: real
  z_moisture :: real
  z_temperature :: real
  z_EC :: real

record soil_draws =
  soil_hours :: "nat \<Rightarrow> nat"
  soil_zones :: "nat \<Rightarrow> zone"
  soil_normal :: "nat \<Rightarrow> soil_noise"
  soil_uniform :: "string \<Rightarrow> nat \<Rightarrow> real"

record soil_reading =
  s_timestamp :: nat
  s_zone_id :: zone
  s_soil_type :: string
  s_nitrogen_mg_kg :: "real option"
  s_phosphorus_mg_kg :: "real option"
  s_potassium_mg_kg :: real
  s_ph :: real
  s_organic_matter_pct :: real
  s_moisture_pct :: real
  s_soil_temperature_c :: real
  s_ec_mscm :: "real option"

definition soil_columns :: "string list" where
  "soil_columns = [''timestamp'', ''zone_id'', ''soil_type'', ''nitrogen_mg_kg'',
     ''phosphorus_mg_kg'', ''potassium_mg_kg'', ''ph'', ''organic_matter_pct'',
     ''moisture_pct'', ''soil_temperature_c'', ''ec_mscm'']"

definition soil_record :: "nat \<Rightarrow> zone \<Rightarrow> soil_noise \<Rightarrow> soil_reading" where
  \<comment> \<open>the body of the record loop\<close>
  "soil_record ts zn z =
     (let profile = ZONE_PROFILES zn;
          day_of_year = tm_yday ts;
          sea = seasonal day_of_year;
          moist = moisture_seasonal day_of_year
      in \<lparr>s_timestamp = ts,
          s_zone_id = zn,
          s_soil_type = zp_soil_type profile,
          s_nitrogen_mg_kg = Some (max 5 (base_N profile * (0.7 + 0.6 * sea) + z_N z)),
          s_phosphorus_mg_kg = Some (max 2 (base_P profile * (0.8 + 0.4 * sea) + z_P z)),
          s_potassium_mg_kg = max 5 (base_K profile * (0.75 + 0.5 * sea) + z_K z),
          s_ph = clip (base_pH profile + z_pH z) 4.0 9.0,
          s_organic_matter_pct =
            clip (z_OM z + (if zp_soil_type profile = ''Peaty'' then 1 else 0)) 0.5 12.0,
          s_moisture_pct = clip (base_moisture profile * moist + z_moisture z) 2 80,
          s_soil_temperature_c = clip (15 + 15 * sea + z_temperature z) 5 45,
          s_ec_mscm = Some (clip (z_EC z) 0.1 5.0)\<rparr>)"

definition soil_records :: "nat \<Rightarrow> soil_draws \<Rightarrow> soil_reading list" where
  "soil_records n_records d =
     (let timestamps = sort (map (soil_hours d) [0..<n_records])
      in map (\<lambda>(i, ts). soil_record ts (soil_zones d i) (soil_normal d i))
           (zip [0..<n_records] timestamps))"

definition generate_soil_data :: "nat \<Rightarrow> soil_draws \<Rightarrow> py_error + soil_reading frame" where
  "generate_soil_data n_records d =
     inject_missing
       [(''nitrogen_mg_kg'', \<lambda>r. r\<lparr>s_nitrogen_mg_kg := None\<rparr>),
        (''phosphorus_mg_kg'', \<lambda>r. r\<lparr>s_phosphorus_mg_kg := None\<rparr>),
        (''ec_mscm'', \<lambda>r. r\<lparr>s_ec_mscm := None\<rparr>)]
       (soil_uniform d) 0.03 n_records
       (DataFrame soil_columns (soil_records n_records d))"

subsection \<open>Water quality data (generate\_water\_data)\<close>

datatype source = Borewell | River | Canal | Rainwater

record source_factor =
  f_ph :: real
  f_tds :: real
  f_turb :: real
  f_do :: real
  f_hard :: real
  f_cl :: real
  f_so4 :: real
  f_no3 :: real

fun source_factors :: "source \<Rightarrow> source_factor" where
  "source_factors Borewell = \<lparr>f_ph = 7.5, f_tds = 600, f_turb = 2, f_do = 5, f_hard = 250, f_cl = 100, f_so4 = 80, f_no3 = 15\<rparr>"
| "source_factors River = \<lparr>f_ph = 7.0, f_tds = 350, f_turb = 15, f_do = 7, f_hard = 150, f_cl = 50, f_so4 = 40, f_no3 = 25\<rparr>"
| "source_factors Canal = \<lparr>f_ph = 7.2, f_tds = 450, f_turb = 20, f_do = 6, f_hard = 180, f_cl = 70, f_so4 = 55, f_no3 = 30\<rparr>"
| "source_factors Rainwater = \<lparr>f_ph = 6.5, f_tds = 50, f_turb = 3, f_do = 8, f_hard = 30, f_cl = 10, f_so4 = 10, f_no3 = 5\<rparr>"

record water_noise =
  y_ph :: real
  y_tds :: real
  y_turb :: real
  y_do :: real
  y_hard :: real
  y_cl :: real
  y_so4 :: real
  y_no3 :: real
  y_temp :: real

record water_draws =
  water_hours :: "nat \<Rightarrow> nat"
  water_sources :: "nat \<Rightarrow> source"
  water_normal :: "nat \<Rightarrow> water_noise"
  water_uniform :: "string \<Rightarrow> nat \<Rightarrow> real"

record water_reading =
  w_timestamp :: nat
  w_source_type :: source
  w_ph :: real
  w_tds_ppm :: real
  w_turbidity_ntu :: "real option"
  w_dissolved_oxygen_mg_l :: "real option"
  w_hardness_mg_l :: real
  w_chloride_mg_l :: real
  w_sulfate_mg_l :: real
  w_nitrate_mg_l :: real
  w_water_temperature_c :: real
  w_quality_grade :: string

definition water_columns :: "string list" where
  "water_columns = [''timestamp'', ''source_type'', ''ph'', ''tds_ppm'', ''turbidity_ntu'',
     ''dissolved_oxygen_mg_l'', ''hardness_mg_l'', ''chloride_mg_l'', ''sulfate_mg_l'',
     ''nitrate_mg_l'', ''water_temperature_c'', ''quality_grade'']"

definition water_record :: "nat \<Rightarrow> source \<Rightarrow> water_noise \<Rightarrow> water_reading" where
  \<comment> \<open>the body of the record loop; the grade is taken before the values are rounded\<close>
  "water_record ts src y =
     (let sea = seasonal (tm_yday ts);
          f = source_factors src;
          ph = clip (f_ph f + y_ph y) 4.5 9.5;
          tds = max 10 (f_tds f + y_tds y);
          turbidity = max 0.1 (f_turb f * (1 + 0.5 * sea) + y_turb y);
          dissolved_o2 = clip (f_do f + y_do y) 1 14;
          hardness = max 10 (f_hard f + y_hard y);
          chloride = max 1 (f_cl f + y_cl y);
          sulfate = max 1 (f_so4 f + y_so4 y);
          nitrate = max 0.5 (f_no3 f * (1 + 0.3 * sea) + y_no3 y);
          temp = clip (20 + 10 * sea + y_temp y) 8 38
      in \<lparr>w_timestamp = ts,
          w_source_type = src,
          w_ph = py_round ph 2,
          w_tds_ppm = py_round tds 1,
          w_turbidity_ntu = Some (py_round turbidity 2),
          w_dissolved_oxygen_mg_l = Some (py_round dissolved_o2 2),
          w_hardness_mg_l = py_round hardness 1,
          w_chloride_mg_l = py_round chloride 1,
          w_sulfate_mg_l = py_round sulfate 1,
          w_nitrate_mg_l = py_round nitrate 2,
          w_water_temperature_c = py_round temp 1,
          w_quality_grade = water_grade ph tds turbidity dissolved_o2 nitrate\<rparr>)"

definition water_records :: "nat \<Rightarrow> water_draws \<Rightarrow> water_reading list" where
  "water_records n_records d =
     (let timestamps = sort (map (water_hours d) [0..<n_records])
      in map (\<lambda>(i, ts). water_record ts (water_sources d i) (water_normal d i))
           (zip [0..<n_records] timestamps))"

definition generate_water_data :: "nat \<Rightarrow> water_draws \<Rightarrow> py_error + water_reading frame" where
  "generate_water_data n_records d =
     inject_missing
       [(''turbidity_ntu'', \<lambda>r. r\<lparr>w_turbidity_ntu := None\<rparr>),
        (''dissolved_oxygen_mg_l'', \<lambda>r. r\<lparr>w_dissolved_oxygen_mg_l := None\<rparr>)]
       (water_uniform d) 0.02 n_records
       (DataFrame water_columns (water_records n_records d))"

subsection \<open>Weather station data (generate\_weather\_data)\<close>

text \<open>
  The weather table gets no injected dropouts: the frame built from the records is
  returned as it is. The spacing \<open>365 * 2 * 24 // n_records\<close> is computed inside the list
  comprehension, once per record, so it is never computed for zero records.
\<close>

record weather_noise =
  v_temp :: real
  v_humidity :: real
  v_exponential :: "real \<Rightarrow> real"
  v_dry :: real
  v_weibull :: real
  v_uniform :: real
  v_pressure :: real
  v_uv :: real

record weather_reading =
  x_timestamp :: nat
  x_temperature_c :: real
  x_humidity_pct :: real
  x_rainfall_mm :: real
  x_wind_speed_kmh :: real
  x_solar_radiation_wm2 :: real
  x_pressure_hpa :: real
  x_uv_index :: int

definition weather_columns :: "string list" where
  "weather_columns = [''timestamp'', ''temperature_c'', ''humidity_pct'', ''rainfall_mm'',
     ''wind_speed_kmh'', ''solar_radiation_wm2'', ''pressure_hpa'', ''uv_index'']"

definition weather_record :: "nat \<Rightarrow> weather_noise \<Rightarrow> weather_reading" where
  "weather_record ts v =
     (let day_of_year = tm_yday ts;
          sea = seasonal day_of_year;
          diu = diurnal (tm_hour ts);
          temp = 15 + 20 * sea + 5 * diu + v_temp v;
          humidity = clip (60 + 25 * (1 - sea) * (1 - 0.3 * diu) + v_humidity v) 15 100;
          monsoon_factor = exp (- 0.5 * ((real day_of_year - 210) / 40) ^ 2);
          rainfall = max 0 (v_exponential v (5 * monsoon_factor + 0.5));
          rainfall = (if v_dry v > 0.3 + 0.4 * monsoon_factor then 0 else rainfall);
          wind_speed = max 0 (v_weibull v * 8 + 3);
          solar_radiation = max 0 (300 * diu * (0.7 + 0.3 * sea) * v_uniform v);
          pressure = v_pressure v;
          uv_index = max 0 (round_half_even (8 * diu * sea + v_uv v))
      in \<lparr>x_timestamp = ts,
          x_temperature_c = py_round temp 1,
          x_humidity_pct = py_round humidity 1,
          x_rainfall_mm = py_round rainfall 1,
          x_wind_speed_kmh = py_round wind_speed 1,
          x_solar_radiation_wm2 = py_round solar_radiation 1,
          x_pressure_hpa = py_round pressure 1,
          x_uv_index = min (max uv_index 0) 12\<rparr>)"

definition generate_weather_data :: "nat \<Rightarrow> (nat \<Rightarrow> weather_noise) \<Rightarrow> py_error + weather_reading frame" where
  "generate_weather_data n_records d =
     (let timestamps = map (\<lambda>i. i * (365 * 2 * 24 div n_records)) [0..<n_records]
      in Inr (DataFrame weather_columns
                (map (\<lambda>(i, ts). weather_record ts (d i)) (zip [0..<n_records] timestamps))))"

subsection \<open>Sample draws and the clamp intervals\<close>

text \<open>
  Sample draws for one record: the soil and water draws put the third and second dropout
  draw below the dropout rate, so the electrical conductivity and the dissolved oxygen of
  the record are replaced by the missing marker.
\<close>

definition quiet_soil_noise :: soil_noise where
  "quiet_soil_noise = \<lparr>z_N = 0, z_P = 0, z_K = 0, z_pH = 0, z_OM = 3.5, z_moisture = 0,
     z_temperature = 0, z_EC = 1.5\<rparr>"

definition dropout_soil_draws :: soil_draws where
  "dropout_soil_draws = \<lparr>soil_hours = (\<lambda>i. 1896), soil_zones = (\<lambda>i. Zone_1),
     soil_normal = (\<lambda>i. quiet_soil_noise),
     soil_uniform = (\<lambda>col i. if col = ''ec_mscm'' then 0.01 else 0.5)\<rparr>"

definition quiet_water_noise :: water_noise where
  "quiet_water_noise = \<lparr>y_ph = 0, y_tds = 0, y_turb = 0, y_do = 0, y_hard = 0, y_cl = 0,
     y_so4 = 0, y_no3 = 0, y_temp = 0\<rparr>"

definition dropout_water_draws :: water_draws where
  "dropout_water_draws = \<lparr>water_hours = (\<lambda>i. 1896), water_sources = (\<lambda>i. River),
     water_normal = (\<lambda>i. quiet_water_noise),
     water_uniform = (\<lambda>col i. if col = ''dissolved_oxygen_mg_l'' then 0.01 else 0.5)\<rparr>"

text \<open>
  The clamp intervals of the bounded fields, read strictly as the specification words
  them (a missing cell is in no interval) and as the generator keeps them (a missing cell
  is accepted).
\<close>

definition in_range :: "real \<Rightarrow> real \<Rightarrow> real \<Rightarrow> bool" where
  "in_range lo hi x = (lo \<le> x \<and> x \<le> hi)"

definition cell_within :: "real \<Rightarrow> real \<Rightarrow> real option \<Rightarrow> bool" where
  "cell_within lo hi c = (case c of Some x \<Rightarrow> in_range lo hi x | None \<Rightarrow> False)"

definition cell_within_or_missing :: "real \<Rightarrow> real \<Rightarrow> real option \<Rightarrow> bool" where
  "cell_within_or_missing lo hi c = (case c of Some x \<Rightarrow> in_range lo hi x | None \<Rightarrow> True)"

definition soil_bounds :: "soil_reading \<Rightarrow> bool" where
  "soil_bounds r =
     (in_range 4.0 9.0 (s_ph r) \<and> in_range 2 80 (s_moisture_pct r)
      \<and> in_range 5 45 (s_soil_temperature_c r) \<and> in_range 0.5 12.0 (s_organic_matter_pct r)
      \<and> cell_within_or_missing 0.1 5.0 (s_ec_mscm r))"

definition water_bounds :: "water_reading \<Rightarrow> bool" where
  "water_bounds r =
     (in_range 4.5 9.5 (w_ph r) \<and> cell_within_or_missing 1 14 (w_dissolved_oxygen_mg_l r))"

definition table_rows :: "py_error + 'r frame \<Rightarrow> 'r list" where
  "table_rows res = (case res of Inl e \<Rightarrow> [] | Inr df \<Rightarrow> rows df)"

section \<open>Theorems\<close>

subsection \<open>Water quality rubric\<close>

lemma water_points_range:
  "water_ph_points ph \<in> {0, 10, 20}"
  "water_tds_points tds \<in> {0, 10, 20}"
  "water_turbidity_points tu \<in> {0, 10, 20}"
  "water_do_points d \<in> {0, 10, 20}"
  "water_nitrate_points n \<in> {0, 10, 20}"
  by (simp_all add: water_ph_points_def water_tds_points_def water_turbidity_points_def
      water_do_points_def water_nitrate_points_def)

text \<open>
  C1. The grade of a water reading is the letter for the sum of five addends, one per
  parameter, each 0, 10 or 20 by the tier the parameter falls in: pH 20 within 6.5..8.5,
  10 within 6.0..9.0; TDS 20 below 500, 10 below 1000; turbidity 20 below 5, 10 below 10;
  dissolved oxygen 20 above 6, 10 above 4; nitrate 20 below 10, 10 below 45. The sum maps
  to A from 80, B from 60, C from 40, D from 20, F below. The reading (7.0, 300, 3, 7, 5)
  scores 100 and is graded A; the reading (3.0, 2000, 50, 1, 100) scores 0 and is graded F.
  The grade stored in a generated water row is this grade of the row's values as drawn
  and clamped, before they are rounded for the table.
\<close>

theorem water_grade_rubric:
  "water_score ph tds tu d n =
       (if 6.5 \<le> ph \<and> ph \<le> 8.5 then 20 else if 6.0 \<le> ph \<and> ph \<le> 9.0 then 10 else 0)
     + (if tds < 500 then 20 else if tds < 1000 then 10 else 0)
     + (if tu < 5 then 20 else if tu < 10 then 10 else 0)
     + (if d > 6 then 20 else if d > 4 then 10 else 0)
     + (if n < 10 then 20 else if n < 45 then 10 else 0)
   \<and> (80 \<le> water_score ph tds tu d n \<longrightarrow> water_grade ph tds tu d n = ''A'')
   \<and> (60 \<le> water_score ph tds tu d n \<and> water_score ph tds tu d n < 80
        \<longrightarrow> water_grade ph tds tu d n = ''B'')
   \<and> (40 \<le> water_score ph tds tu d n \<and> water_score ph tds tu d n < 60
        \<longrightarrow> water_grade ph tds tu d n = ''C'')
   \<and> (20 \<le> water_score ph tds tu d n \<and> water_score ph tds tu d n < 40
        \<longrightarrow> water_grade ph tds tu d n = ''D'')
   \<and> (water_score ph tds tu d n < 20 \<longrightarrow> water_grade ph tds tu d n = ''F'')
   \<and> water_score 7.0 300 3 7 5 = 100 \<and> water_grade 7.0 300 3 7 5 = ''A''
   \<and> water_score 3.0 2000 50 1 100 = 0 \<and> water_grade 3.0 2000 50 1 100 = ''F''
   \<and> w_quality_grade (water_record ts src y) =
       water_grade (clip (f_ph (source_factors src) + y_ph y) 4.5 9.5)
         (max 10 (f_tds (source_factors src) + y_tds y))
         (max 0.1 (f_turb (source_factors src) * (1 + 0.5 * seasonal (tm_yday ts)) + y_turb y))
         (clip (f_do (source_factors src) + y_do y) 1 14)
         (max 0.5 (f_no3 (source_factors src) * (1 + 0.3 * seasonal (tm_yday ts)) + y_no3 y))"
proof -
  have row: "w_quality_grade (water_record ts src y) =
       water_grade (clip (f_ph (source_factors src) + y_ph y) 4.5 9.5)
         (max 10 (f_tds (source_factors src) + y_tds y))
         (max 0.1 (f_turb (source_factors src) * (1 + 0.5 * seasonal (tm_yday ts)) + y_turb y))
         (clip (f_do (source_factors src) + y_do y) 1 14)
         (max 0.5 (f_no3 (source_factors src) * (1 + 0.3 * seasonal (tm_yday ts)) + y_no3 y))"
    by (simp add: water_record_def Let_def)
  have tiers: "water_score ph tds tu d n =
       (if 6.5 \<le> ph \<and> ph \<le> 8.5 then 20 else if 6.0 \<le> ph \<and> ph \<le> 9.0 then 10 else 0)
     + (if tds < 500 then 20 else if tds < 1000 then 10 else 0)
     + (if tu < 5 then 20 else if tu < 10 then 10 else 0)
     + (if d > 6 then 20 else if d > 4 then 10 else 0)
     + (if n < 10 then 20 else if n < 45 then 10 else 0)"
    unfolding water_score_def water_ph_points_def water_tds_points_def
      water_turbidity_points_def water_do_points_def water_nitrate_points_def
    by simp
  have letters: "(80 \<le> water_score ph tds tu d n \<longrightarrow> water_grade ph tds tu d n = ''A'')
   \<and> (60 \<le> water_score ph tds tu d n \<and> water_score ph tds tu d n < 80
        \<longrightarrow> water_grade ph tds tu d n = ''B'')
   \<and> (40 \<le> water_score ph tds tu d n \<and> water_score ph tds tu d n < 60
        \<longrightarrow> water_grade ph tds tu d n = ''C'')
   \<and> (20 \<le> water_score ph tds tu d n \<and> water_score ph tds tu d n < 40
        \<longrightarrow> water_grade ph tds tu d n = ''D'')
   \<and> (water_score ph tds tu d n < 20 \<longrightarrow> water_grade ph tds tu d n = ''F'')"
    unfolding water_grade_def grade_of_score_def by simp
  have best: "water_score 7.0 300 3 7 5 = 100 \<and> water_grade 7.0 300 3 7 5 = ''A''"
    by (simp add: water_grade_def grade_of_score_def water_score_def water_ph_points_def
        water_tds_points_def water_turbidity_points_def water_do_points_def
        water_nitrate_points_def)
  have worst: "water_score 3.0 2000 50 1 100 = 0 \<and> water_grade 3.0 2000 50 1 100 = ''F''"
    by (simp add: water_grade_def grade_of_score_def water_score_def water_ph_points_def
        water_tds_points_def water_turbidity_points_def water_do_points_def
        water_nitrate_points_def)
  from tiers letters best worst row show ?thesis by (intro conjI) (elim conjE, assumption)+
qed

text \<open>
  A canal reading at its baseline (pH 7.2, TDS 450, turbidity 26, dissolved oxygen 6,
  nitrate 39) collects 20 + 20 + 0 + 10 + 10 = 60 points, so the rubric grades it B.
\<close>

theorem water_grade_rubric_witness:
  "water_score 7.2 450 26 6 39 = 60 \<and> water_grade 7.2 450 26 6 39 = ''B''"
proof -
  have sc: "water_score 7.2 450 26 6 39 = 60"
    by (simp add: water_score_def water_ph_points_def water_tds_points_def
        water_turbidity_points_def water_do_points_def water_nitrate_points_def)
  then have "60 \<le> water_score 7.2 450 26 6 39 \<and> water_score 7.2 450 26 6 39 < 80"
    by simp
  with water_grade_rubric [of "7.2" 450 26 6 39] have "water_grade 7.2 450 26 6 39 = ''B''"
    by blast
  with sc show ?thesis by simp
qed

subsection \<open>Soil health category\<close>

text \<open>
  C3. \<open>categorize_health_score\<close> returns Excellent for a score of at least 80, Good for
  at least 60, Fair for at least 40 and Poor below 40. The boundaries are closed: exactly
  80 is Excellent, exactly 60 is Good, exactly 40 is Fair. A score of 100 is Excellent, a
  score of 0 is Poor.
\<close>

theorem categorize_health_score_tiers:
  "(score \<ge> 80 \<longrightarrow> categorize_health_score score = ''Excellent'')
   \<and> (60 \<le> score \<and> score < 80 \<longrightarrow> categorize_health_score score = ''Good'')
   \<and> (40 \<le> score \<and> score < 60 \<longrightarrow> categorize_health_score score = ''Fair'')
   \<and> (score < 40 \<longrightarrow> categorize_health_score score = ''Poor'')
   \<and> categorize_health_score 80 = ''Excellent''
   \<and> categorize_health_score 60 = ''Good''
   \<and> categorize_health_score 40 = ''Fair''
   \<and> categorize_health_score 100 = ''Excellent''
   \<and> categorize_health_score 0 = ''Poor''"
  by (simp add: categorize_health_score_def)

text \<open>A score of 72.5 lies in the band from 60 up to 80 and is categorised Good.\<close>

theorem categorize_health_score_tiers_witness:
  "(60::real) \<le> 72.5 \<and> (72.5::real) < 80 \<and> categorize_health_score 72.5 = ''Good''"
proof -
  have band: "(60::real) \<le> 72.5 \<and> (72.5::real) < 80" by simp
  with categorize_health_score_tiers [of "72.5"] have "categorize_health_score 72.5 = ''Good''"
    by blast
  with band show ?thesis by blast
qed

subsection \<open>Nutrient deficiency diagnosis\<close>

lemma threshold_values:
  "moderate (nitrogen DEFICIENCY_THRESHOLDS) = 60" "low (nitrogen DEFICIENCY_THRESHOLDS) = 40"
  "moderate (phosphorus DEFICIENCY_THRESHOLDS) = 25" "low (phosphorus DEFICIENCY_THRESHOLDS) = 15"
  "moderate (potassium DEFICIENCY_THRESHOLDS) = 35" "low (potassium DEFICIENCY_THRESHOLDS) = 25"
  "ph_low DEFICIENCY_THRESHOLDS = 5.5" "ph_high DEFICIENCY_THRESHOLDS = 8"
  by (simp_all add: DEFICIENCY_THRESHOLDS_def)

lemma flag_fields:
  "deficiencies (flag name v sev key res) =
     deficiencies res @ [\<lparr>nutrient = name, reading_value = v, severity = sev\<rparr>]"
  "diagnosis.severity (flag name v sev key res) = diagnosis.severity res"
  by (simp_all add: flag_def)

lemma flag_nitrogen_fields:
  "deficiencies (flag_nitrogen n res) = deficiencies res @ nutrient_entries ''Nitrogen'' n 40 60"
  "diagnosis.severity (flag_nitrogen n res) = diagnosis.severity res"
  by (simp_all add: flag_nitrogen_def flag_fields threshold_values nutrient_entries_def)

lemma flag_phosphorus_fields:
  "deficiencies (flag_phosphorus p res) = deficiencies res @ nutrient_entries ''Phosphorus'' p 15 25"
  "diagnosis.severity (flag_phosphorus p res) = diagnosis.severity res"
  by (simp_all add: flag_phosphorus_def flag_fields threshold_values nutrient_entries_def)

lemma flag_potassium_fields:
  "deficiencies (flag_potassium k res) = deficiencies res @ nutrient_entries ''Potassium'' k 25 35"
  "diagnosis.severity (flag_potassium k res) = diagnosis.severity res"
  by (simp_all add: flag_potassium_def flag_fields threshold_values nutrient_entries_def)

lemma flag_ph_fields:
  "deficiencies (flag_ph ph res) = deficiencies res @ ph_entries ph"
  "diagnosis.severity (flag_ph ph res) = diagnosis.severity res"
  by (simp_all add: flag_ph_def flag_fields threshold_values ph_entries_def)

lemma overall_severity_fields:
  "deficiencies (overall_severity res) = deficiencies res"
  "diagnosis.severity (overall_severity res) =
     (if deficiencies res = [] then diagnosis.severity res
      else if ''Critical'' \<in> deficiency.severity ` set (deficiencies res) then ''critical''
      else ''moderate'')"
  by (simp_all add: overall_severity_def Let_def)

lemma deficiencies_diagnose:
  "deficiencies (diagnose r) =
     nutrient_entries ''Nitrogen'' (dict_get r ''nitrogen_mg_kg'' 0) 40 60
   @ nutrient_entries ''Phosphorus'' (dict_get r ''phosphorus_mg_kg'' 0) 15 25
   @ nutrient_entries ''Potassium'' (dict_get r ''potassium_mg_kg'' 0) 25 35
   @ ph_entries (dict_get r ''ph'' 7)"
  by (simp add: diagnose_def Let_def overall_severity_fields flag_ph_fields
      flag_potassium_fields flag_phosphorus_fields flag_nitrogen_fields)

lemma severity_diagnose_raw:
  "diagnosis.severity (diagnose r) =
     (if deficiencies (diagnose r) = [] then ''none''
      else if ''Critical'' \<in> deficiency.severity ` set (deficiencies (diagnose r)) then ''critical''
      else ''moderate'')"
  by (simp add: diagnose_def Let_def overall_severity_fields flag_ph_fields
      flag_potassium_fields flag_phosphorus_fields flag_nitrogen_fields)

lemma nutrient_entries_empty: "nutrient_entries name v lo md = [] \<longleftrightarrow> \<not> v < md"
  by (simp add: nutrient_entries_def)

lemma nutrient_entries_critical:
  "''Critical'' \<in> deficiency.severity ` set (nutrient_entries name v lo md) \<longleftrightarrow> v < md \<and> v < lo"
  by (auto simp: nutrient_entries_def)

lemma ph_entries_empty: "ph_entries ph = [] \<longleftrightarrow> \<not> (ph < 5.5 \<or> ph > 8)"
  by (simp add: ph_entries_def)

lemma ph_entries_critical: "''Critical'' \<notin> deficiency.severity ` set (ph_entries ph)"
  by (auto simp: ph_entries_def)

lemma severity_diagnose:
  fixes r
  defines "n \<equiv> dict_get r ''nitrogen_mg_kg'' 0" and "p \<equiv> dict_get r ''phosphorus_mg_kg'' 0"
    and "k \<equiv> dict_get r ''potassium_mg_kg'' 0" and "ph \<equiv> dict_get r ''ph'' 7"
  shows "diagnosis.severity (diagnose r) =
     (if n < 40 \<or> p < 15 \<or> k < 25 then ''critical''
      else if n < 60 \<or> p < 25 \<or> k < 35 \<or> ph < 5.5 \<or> ph > 8 then ''moderate''
      else ''none'')"
  unfolding severity_diagnose_raw deficiencies_diagnose n_def p_def k_def ph_def
  by (simp add: nutrient_entries_empty nutrient_entries_critical ph_entries_empty
      ph_entries_critical image_Un)

lemma dict_get_upd:
  "dict_get (r(key \<mapsto> v)) key' d = (if key' = key then v else dict_get r key' d)"
  by (simp add: dict_get_def)

lemma dict_get_missing: "r key = None \<Longrightarrow> dict_get r key d = d"
  by (simp add: dict_get_def)

lemma dict_get_present: "r key = Some v \<Longrightarrow> dict_get r key d = v"
  by (simp add: dict_get_def)

lemma diagnose_cong:
  "dict_get r ''nitrogen_mg_kg'' 0 = dict_get r' ''nitrogen_mg_kg'' 0 \<Longrightarrow>
   dict_get r ''phosphorus_mg_kg'' 0 = dict_get r' ''phosphorus_mg_kg'' 0 \<Longrightarrow>
   dict_get r ''potassium_mg_kg'' 0 = dict_get r' ''potassium_mg_kg'' 0 \<Longrightarrow>
   dict_get r ''ph'' 7 = dict_get r' ''ph'' 7 \<Longrightarrow> diagnose r = diagnose r'"
  by (simp add: diagnose_def)

lemma diagnose_default:
  "r key = None \<Longrightarrow>
   (key = ''nitrogen_mg_kg'' \<or> key = ''phosphorus_mg_kg'' \<or> key = ''potassium_mg_kg'') \<Longrightarrow>
   diagnose r = diagnose (r(key \<mapsto> 0))"
  by (rule diagnose_cong) (auto simp: dict_get_upd dict_get_missing)

lemma diagnose_default_ph: "r ''ph'' = None \<Longrightarrow> diagnose r = diagnose (r(''ph'' \<mapsto> 7))"
  by (rule diagnose_cong) (auto simp: dict_get_upd dict_get_missing)

text \<open>
  C4. With \<open>n\<close>, \<open>p\<close>, \<open>k\<close> and \<open>ph\<close> the values \<open>diagnose\<close> reads (a missing key giving
  the default), each of nitrogen, phosphorus and potassium is flagged on its own when below
  its moderate threshold (60, 25, 35), Critical when also below its low threshold
  (40, 15, 25) and Low otherwise. The overall severity is a union over the entries:
  critical when any entry is Critical, moderate when there is any entry at all (a nutrient
  or a pH imbalance), none otherwise. A reading with nitrogen 30 has a Critical nitrogen
  entry and overall severity critical; a reading with nitrogen 50 and no Critical
  phosphorus or potassium has a Low nitrogen entry and overall severity moderate.
\<close>

theorem diagnose_severity_union:
  fixes r :: "string \<rightharpoonup> real"
  defines "n \<equiv> dict_get r ''nitrogen_mg_kg'' 0"
    and "p \<equiv> dict_get r ''phosphorus_mg_kg'' 0"
    and "k \<equiv> dict_get r ''potassium_mg_kg'' 0"
    and "ph \<equiv> dict_get r ''ph'' 7"
  shows "deficiencies (diagnose r) =
       (if n < 60 then [\<lparr>nutrient = ''Nitrogen'', reading_value = n,
                         severity = (if n < 40 then ''Critical'' else ''Low'')\<rparr>] else [])
     @ (if p < 25 then [\<lparr>nutrient = ''Phosphorus'', reading_value = p,
                         severity = (if p < 15 then ''Critical'' else ''Low'')\<rparr>] else [])
     @ (if k < 35 then [\<lparr>nutrient = ''Potassium'', reading_value = k,
                         severity = (if k < 25 then ''Critical'' else ''Low'')\<rparr>] else [])
     @ (if ph < 5.5
        then [\<lparr>nutrient = ''pH (Acidic)'', reading_value = ph, severity = ''Imbalanced''\<rparr>]
        else if ph > 8
        then [\<lparr>nutrient = ''pH (Alkaline)'', reading_value = ph, severity = ''Imbalanced''\<rparr>]
        else [])
   \<and> diagnosis.severity (diagnose r) =
       (if ''Critical'' \<in> deficiency.severity ` set (deficiencies (diagnose r)) then ''critical''
        else if deficiencies (diagnose r) \<noteq> [] then ''moderate''
        else ''none'')
   \<and> diagnosis.severity (diagnose r) =
       (if n < 40 \<or> p < 15 \<or> k < 25 then ''critical''
        else if n < 60 \<or> p < 25 \<or> k < 35 \<or> ph < 5.5 \<or> ph > 8 then ''moderate''
        else ''none'')
   \<and> (r ''nitrogen_mg_kg'' = Some 30 \<longrightarrow>
        \<lparr>nutrient = ''Nitrogen'', reading_value = 30, severity = ''Critical''\<rparr>
          \<in> set (deficiencies (diagnose r))
        \<and> diagnosis.severity (diagnose r) = ''critical'')
   \<and> (r ''nitrogen_mg_kg'' = Some 50 \<and> \<not> p < 15 \<and> \<not> k < 25 \<longrightarrow>
        \<lparr>nutrient = ''Nitrogen'', reading_value = 50, severity = ''Low''\<rparr>
          \<in> set (deficiencies (diagnose r))
        \<and> diagnosis.severity (diagnose r) = ''moderate'')"
proof -
  have entries: "deficiencies (diagnose r) =
       (if n < 60 then [\<lparr>nutrient = ''Nitrogen'', reading_value = n,
                         severity = (if n < 40 then ''Critical'' else ''Low'')\<rparr>] else [])
     @ (if p < 25 then [\<lparr>nutrient = ''Phosphorus'', reading_value = p,
                         severity = (if p < 15 then ''Critical'' else ''Low'')\<rparr>] else [])
     @ (if k < 35 then [\<lparr>nutrient = ''Potassium'', reading_value = k,
                         severity = (if k < 25 then ''Critical'' else ''Low'')\<rparr>] else [])
     @ (if ph < 5.5
        then [\<lparr>nutrient = ''pH (Acidic)'', reading_value = ph, severity = ''Imbalanced''\<rparr>]
        else if ph > 8
        then [\<lparr>nutrient = ''pH (Alkaline)'', reading_value = ph, severity = ''Imbalanced''\<rparr>]
        else [])"
    unfolding deficiencies_diagnose nutrient_entries_def ph_entries_def n_def p_def k_def ph_def
    by simp
  have union: "diagnosis.severity (diagnose r) =
       (if ''Critical'' \<in> deficiency.severity ` set (deficiencies (diagnose r)) then ''critical''
        else if deficiencies (diagnose r) \<noteq> [] then ''moderate''
        else ''none'')"
    by (subst severity_diagnose_raw) auto
  have overall: "diagnosis.severity (diagnose r) =
       (if n < 40 \<or> p < 15 \<or> k < 25 then ''critical''
        else if n < 60 \<or> p < 25 \<or> k < 35 \<or> ph < 5.5 \<or> ph > 8 then ''moderate''
        else ''none'')"
    unfolding n_def p_def k_def ph_def by (rule severity_diagnose)
  have n30: "r ''nitrogen_mg_kg'' = Some 30 \<longrightarrow>
        \<lparr>nutrient = ''Nitrogen'', reading_value = 30, severity = ''Critical''\<rparr>
          \<in> set (deficiencies (diagnose r))
        \<and> diagnosis.severity (diagnose r) = ''critical''"
  proof
    assume "r ''nitrogen_mg_kg'' = Some 30"
    then have "n = 30" by (simp add: n_def dict_get_present)
    then show "\<lparr>nutrient = ''Nitrogen'', reading_value = 30, severity = ''Critical''\<rparr>
          \<in> set (deficiencies (diagnose r))
        \<and> diagnosis.severity (diagnose r) = ''critical''"
      by (simp add: entries overall)
  qed
  have n50: "r ''nitrogen_mg_kg'' = Some 50 \<and> \<not> p < 15 \<and> \<not> k < 25 \<longrightarrow>
        \<lparr>nutrient = ''Nitrogen'', reading_value = 50, severity = ''Low''\<rparr>
          \<in> set (deficiencies (diagnose r))
        \<and> diagnosis.severity (diagnose r) = ''moderate''"
  proof
    assume a: "r ''nitrogen_mg_kg'' = Some 50 \<and> \<not> p < 15 \<and> \<not> k < 25"
    then have "n = 50" by (simp add: n_def dict_get_present)
    with a show "\<lparr>nutrient = ''Nitrogen'', reading_value = 50, severity = ''Low''\<rparr>
          \<in> set (deficiencies (diagnose r))
        \<and> diagnosis.severity (diagnose r) = ''moderate''"
      by (simp add: entries overall)
  qed
  from entries union overall n30 n50 show ?thesis by blast
qed

text \<open>
  The reading N = 50, P = 30, K = 40, pH = 6.5 has the single entry Nitrogen/Low and is
  moderate overall.
\<close>

theorem diagnose_severity_union_witness:
  "reading_n50 ''nitrogen_mg_kg'' = Some 50
   \<and> \<not> dict_get reading_n50 ''phosphorus_mg_kg'' 0 < 15
   \<and> \<not> dict_get reading_n50 ''potassium_mg_kg'' 0 < 25
   \<and> deficiencies (diagnose reading_n50) =
       [\<lparr>nutrient = ''Nitrogen'', reading_value = 50, severity = ''Low''\<rparr>]
   \<and> diagnosis.severity (diagnose reading_n50) = ''moderate''"
proof -
  have hyp: "reading_n50 ''nitrogen_mg_kg'' = Some 50
      \<and> \<not> dict_get reading_n50 ''phosphorus_mg_kg'' 0 < 15
      \<and> \<not> dict_get reading_n50 ''potassium_mg_kg'' 0 < 25"
    by (simp add: reading_n50_def dict_get_def)
  have vals: "dict_get reading_n50 ''nitrogen_mg_kg'' 0 = 50"
    "dict_get reading_n50 ''phosphorus_mg_kg'' 0 = 30"
    "dict_get reading_n50 ''potassium_mg_kg'' 0 = 40"
    "dict_get reading_n50 ''ph'' 7 = 6.5"
    by (simp_all add: reading_n50_def dict_get_def)
  from diagnose_severity_union [of reading_n50] hyp
  have "diagnosis.severity (diagnose reading_n50) = ''moderate''" by blast
  moreover from diagnose_severity_union [of reading_n50]
  have "deficiencies (diagnose reading_n50) =
       [\<lparr>nutrient = ''Nitrogen'', reading_value = 50, severity = ''Low''\<rparr>]"
    unfolding vals by simp
  ultimately show ?thesis using hyp by blast
qed

lemma nutrient_entries_name: "d \<in> set (nutrient_entries name v lo md) \<Longrightarrow> nutrient d = name"
  by (simp add: nutrient_entries_def split: if_splits)

lemma ph_entries_neutral: "ph_entries 7 = []"
  by (simp add: ph_entries_def)

lemma missing_nitrogen:
  assumes none: "r ''nitrogen_mg_kg'' = None"
  shows "diagnose r = diagnose (r(''nitrogen_mg_kg'' \<mapsto> 0))
      \<and> \<lparr>nutrient = ''Nitrogen'', reading_value = 0, severity = ''Critical''\<rparr>
          \<in> set (deficiencies (diagnose r))
      \<and> diagnosis.severity (diagnose r) = ''critical''"
proof -
  from none have same: "diagnose r = diagnose (r(''nitrogen_mg_kg'' \<mapsto> 0))"
    by (simp add: diagnose_default)
  from none have zero: "dict_get r ''nitrogen_mg_kg'' 0 = 0"
    by (rule dict_get_missing)
  have entry: "\<lparr>nutrient = ''Nitrogen'', reading_value = 0, severity = ''Critical''\<rparr>
          \<in> set (deficiencies (diagnose r))"
    unfolding deficiencies_diagnose zero by (simp add: nutrient_entries_def)
  have "diagnosis.severity (diagnose r) = ''critical''"
    unfolding severity_diagnose zero by simp
  with same entry show ?thesis by blast
qed

lemma missing_phosphorus:
  assumes none: "r ''phosphorus_mg_kg'' = None"
  shows "diagnose r = diagnose (r(''phosphorus_mg_kg'' \<mapsto> 0))
      \<and> \<lparr>nutrient = ''Phosphorus'', reading_value = 0, severity = ''Critical''\<rparr>
          \<in> set (deficiencies (diagnose r))
      \<and> diagnosis.severity (diagnose r) = ''critical''"
proof -
  from none have same: "diagnose r = diagnose (r(''phosphorus_mg_kg'' \<mapsto> 0))"
    by (simp add: diagnose_default)
  from none have zero: "dict_get r ''phosphorus_mg_kg'' 0 = 0"
    by (rule dict_get_missing)
  have entry: "\<lparr>nutrient = ''Phosphorus'', reading_value = 0, severity = ''Critical''\<rparr>
          \<in> set (deficiencies (diagnose r))"
    unfolding deficiencies_diagnose zero by (simp add: nutrient_entries_def)
  have "diagnosis.severity (diagnose r) = ''critical''"
    unfolding severity_diagnose zero by simp
  with same entry show ?thesis by blast
qed

lemma missing_potassium:
  assumes none: "r ''potassium_mg_kg'' = None"
  shows "diagnose r = diagnose (r(''potassium_mg_kg'' \<mapsto> 0))
      \<and> \<lparr>nutrient = ''Potassium'', reading_value = 0, severity = ''Critical''\<rparr>
          \<in> set (deficiencies (diagnose r))
      \<and> diagnosis.severity (diagnose r) = ''critical''"
proof -
  from none have same: "diagnose r = diagnose (r(''potassium_mg_kg'' \<mapsto> 0))"
    by (simp add: diagnose_default)
  from none have zero: "dict_get r ''potassium_mg_kg'' 0 = 0"
    by (rule dict_get_missing)
  have entry: "\<lparr>nutrient = ''Potassium'', reading_value = 0, severity = ''Critical''\<rparr>
          \<in> set (deficiencies (diagnose r))"
    unfolding deficiencies_diagnose zero by (simp add: nutrient_entries_def)
  have "diagnosis.severity (diagnose r) = ''critical''"
    unfolding severity_diagnose zero by simp
  with same entry show ?thesis by blast
qed

text \<open>
  C10. A reading that lacks the nitrogen key (or the phosphorus key, or the potassium key)
  is diagnosed exactly as the same reading with that nutrient measured as 0: zero is below
  every low threshold, so the result holds a Critical entry with value 0 for that nutrient
  and the overall severity is critical. A reading that lacks \<open>ph\<close> is diagnosed as with
  pH 7.0 and carries no pH entry.
\<close>

theorem diagnose_missing_defaults:
  "(r ''nitrogen_mg_kg'' = None \<longrightarrow>
      diagnose r = diagnose (r(''nitrogen_mg_kg'' \<mapsto> 0))
      \<and> \<lparr>nutrient = ''Nitrogen'', reading_value = 0, severity = ''Critical''\<rparr>
          \<in> set (deficiencies (diagnose r))
      \<and> diagnosis.severity (diagnose r) = ''critical'')
   \<and> (r ''phosphorus_mg_kg'' = None \<longrightarrow>
      diagnose r = diagnose (r(''phosphorus_mg_kg'' \<mapsto> 0))
      \<and> \<lparr>nutrient = ''Phosphorus'', reading_value = 0, severity = ''Critical''\<rparr>
          \<in> set (deficiencies (diagnose r))
      \<and> diagnosis.severity (diagnose r) = ''critical'')
   \<and> (r ''potassium_mg_kg'' = None \<longrightarrow>
      diagnose r = diagnose (r(''potassium_mg_kg'' \<mapsto> 0))
      \<and> \<lparr>nutrient = ''Potassium'', reading_value = 0, severity = ''Critical''\<rparr>
          \<in> set (deficiencies (diagnose r))
      \<and> diagnosis.severity (diagnose r) = ''critical'')
   \<and> (r ''ph'' = None \<longrightarrow>
      diagnose r = diagnose (r(''ph'' \<mapsto> 7))
      \<and> (\<forall>d \<in> set (deficiencies (diagnose r)).
            nutrient d \<noteq> ''pH (Acidic)'' \<and> nutrient d \<noteq> ''pH (Alkaline)''))
   \<and> 0 < low (nitrogen DEFICIENCY_THRESHOLDS)
   \<and> 0 < low (phosphorus DEFICIENCY_THRESHOLDS)
   \<and> 0 < low (potassium DEFICIENCY_THRESHOLDS)"
proof -
  have ph: "r ''ph'' = None \<longrightarrow>
      diagnose r = diagnose (r(''ph'' \<mapsto> 7))
      \<and> (\<forall>d \<in> set (deficiencies (diagnose r)).
            nutrient d \<noteq> ''pH (Acidic)'' \<and> nutrient d \<noteq> ''pH (Alkaline)'')"
  proof
    assume none: "r ''ph'' = None"
    then have seven: "dict_get r ''ph'' 7 = 7" by (rule dict_get_missing)
    have "\<forall>d \<in> set (deficiencies (diagnose r)).
            nutrient d \<noteq> ''pH (Acidic)'' \<and> nutrient d \<noteq> ''pH (Alkaline)''"
      unfolding deficiencies_diagnose seven ph_entries_neutral
      by (auto dest!: nutrient_entries_name)
    with diagnose_default_ph [of r] none
    show "diagnose r = diagnose (r(''ph'' \<mapsto> 7))
      \<and> (\<forall>d \<in> set (deficiencies (diagnose r)).
            nutrient d \<noteq> ''pH (Acidic)'' \<and> nutrient d \<noteq> ''pH (Alkaline)'')"
      by blast
  qed
  have zero: "0 < low (nitrogen DEFICIENCY_THRESHOLDS)
      \<and> 0 < low (phosphorus DEFICIENCY_THRESHOLDS)
      \<and> 0 < low (potassium DEFICIENCY_THRESHOLDS)"
    by (simp add: threshold_values)
  from missing_nitrogen [of r] missing_phosphorus [of r] missing_potassium [of r] ph zero
  show ?thesis by blast
qed

text \<open>
  A reading with only pH, potassium and phosphorus has no nitrogen key; its diagnosis
  holds a Critical nitrogen entry with value 0 and is critical overall.
\<close>

theorem diagnose_missing_defaults_witness:
  "reading_ph_only ''nitrogen_mg_kg'' = None
   \<and> \<lparr>nutrient = ''Nitrogen'', reading_value = 0, severity = ''Critical''\<rparr>
       \<in> set (deficiencies (diagnose reading_ph_only))
   \<and> diagnosis.severity (diagnose reading_ph_only) = ''critical''"
proof -
  have hyp: "reading_ph_only ''nitrogen_mg_kg'' = None"
    by (simp add: reading_ph_only_def)
  with diagnose_missing_defaults [of reading_ph_only] show ?thesis by blast
qed

subsection \<open>Irrigation suitability and irrigation need\<close>

lemma check_param_step:
  "check_param fv fl reading item (iss, suit) =
     (iss @ param_issues fv fl reading item, suit \<and> param_issues fv fl reading item = [])"
  by (cases item)
     (simp add: check_param_def check_min_def check_max_def param_issues_def
        split: option.splits)

lemma fold_check_param:
  "fold (check_param fv fl reading) ls (iss, suit) =
     (iss @ concat (map (param_issues fv fl reading) ls),
      suit \<and> concat (map (param_issues fv fl reading) ls) = [])"
proof (induction ls arbitrary: iss suit)
  case Nil
  show ?case by simp
next
  case (Cons item ls)
  show ?case
    by (simp only: fold_simps check_param_step Cons.IH) auto
qed

lemma assess_fields:
  "issues (assess_irrigation_suitability fv fl reading) =
     concat (map (param_issues fv fl reading) IRRIGATION_LIMITS)"
  "suitable (assess_irrigation_suitability fv fl reading) =
     (concat (map (param_issues fv fl reading) IRRIGATION_LIMITS) = [])"
  "recommendation (assess_irrigation_suitability fv fl reading) =
     (if suitable (assess_irrigation_suitability fv fl reading) then ''Suitable for irrigation''
      else ''Treatment needed before irrigation'')"
  by (simp_all add: assess_irrigation_suitability_def fold_check_param)

lemma param_issues_max_only:
  "param_issues fv fl reading (param, \<lparr>min_l = None, max_l = Some mx, unit_l = u\<rparr>) =
     (if above reading param mx then [exceeds_msg fv fl param (the (reading param)) u mx] else [])"
  by (simp add: param_issues_def above_def split: option.splits)

lemma param_issues_both:
  "param_issues fv fl reading (param, \<lparr>min_l = Some mn, max_l = Some mx, unit_l = u\<rparr>) =
     (if above reading param mx then [exceeds_msg fv fl param (the (reading param)) u mx] else [])
   @ (if below reading param mn then [below_msg fv fl param (the (reading param)) u mn] else [])"
  by (simp add: param_issues_def above_def below_def split: option.splits)

lemma issues_length:
  "length (issues (assess_irrigation_suitability fv fl reading)) =
     length (filter id (violated_bounds reading))"
  by (simp add: assess_fields IRRIGATION_LIMITS_def param_issues_max_only param_issues_both
      violated_bounds_def)

lemma suitable_iff_bounds:
  "suitable (assess_irrigation_suitability fv fl reading) \<longleftrightarrow>
     \<not> (above reading ''ph'' 8.5 \<or> below reading ''ph'' 6.0 \<or> above reading ''tds_ppm'' 2000
        \<or> above reading ''chloride_mg_l'' 350 \<or> above reading ''sulfate_mg_l'' 400
        \<or> above reading ''hardness_mg_l'' 500)"
  by (simp add: assess_fields IRRIGATION_LIMITS_def param_issues_max_only param_issues_both)

text \<open>
  C7. The assessment reports a reading suitable exactly when its issue list is empty,
  and exactly when no checked parameter it carries is out of bounds: pH within 6.0..8.5,
  TDS at most 2000, chloride at most 350, sulfate at most 400, hardness at most 500. Every
  violated bound adds one issue message, so the number of issues is the number of violated
  bounds; there is no partial credit, and the recommendation follows the same flag.
\<close>

theorem suitability_strict_and:
  "(suitable (assess_irrigation_suitability fv fl reading)
      \<longleftrightarrow> issues (assess_irrigation_suitability fv fl reading) = [])
   \<and> (suitable (assess_irrigation_suitability fv fl reading)
      \<longleftrightarrow> (\<forall>v. (reading ''ph'' = Some v \<longrightarrow> 6.0 \<le> v \<and> v \<le> 8.5)
             \<and> (reading ''tds_ppm'' = Some v \<longrightarrow> v \<le> 2000)
             \<and> (reading ''chloride_mg_l'' = Some v \<longrightarrow> v \<le> 350)
             \<and> (reading ''sulfate_mg_l'' = Some v \<longrightarrow> v \<le> 400)
             \<and> (reading ''hardness_mg_l'' = Some v \<longrightarrow> v \<le> 500)))
   \<and> length (issues (assess_irrigation_suitability fv fl reading))
       = length (filter id (violated_bounds reading))
   \<and> recommendation (assess_irrigation_suitability fv fl reading)
       = (if issues (assess_irrigation_suitability fv fl reading) = []
          then ''Suitable for irrigation'' else ''Treatment needed before irrigation'')"
proof -
  let ?R = "assess_irrigation_suitability fv fl reading"
  have empty: "suitable ?R \<longleftrightarrow> issues ?R = []"
    by (simp only: assess_fields)
  have "suitable ?R \<longleftrightarrow>
     \<not> (above reading ''ph'' 8.5 \<or> below reading ''ph'' 6.0 \<or> above reading ''tds_ppm'' 2000
        \<or> above reading ''chloride_mg_l'' 350 \<or> above reading ''sulfate_mg_l'' 400
        \<or> above reading ''hardness_mg_l'' 500)"
    by (rule suitable_iff_bounds)
  also have "\<dots> \<longleftrightarrow> (\<forall>v. (reading ''ph'' = Some v \<longrightarrow> 6.0 \<le> v \<and> v \<le> 8.5)
             \<and> (reading ''tds_ppm'' = Some v \<longrightarrow> v \<le> 2000)
             \<and> (reading ''chloride_mg_l'' = Some v \<longrightarrow> v \<le> 350)
             \<and> (reading ''sulfate_mg_l'' = Some v \<longrightarrow> v \<le> 400)
             \<and> (reading ''hardness_mg_l'' = Some v \<longrightarrow> v \<le> 500))"
    by (auto simp: above_def below_def split: option.splits)
  finally have bounds: "suitable ?R \<longleftrightarrow> (\<forall>v. (reading ''ph'' = Some v \<longrightarrow> 6.0 \<le> v \<and> v \<le> 8.5)
             \<and> (reading ''tds_ppm'' = Some v \<longrightarrow> v \<le> 2000)
             \<and> (reading ''chloride_mg_l'' = Some v \<longrightarrow> v \<le> 350)
             \<and> (reading ''sulfate_mg_l'' = Some v \<longrightarrow> v \<le> 400)
             \<and> (reading ''hardness_mg_l'' = Some v \<longrightarrow> v \<le> 500))" .
  have count: "length (issues ?R) = length (filter id (violated_bounds reading))"
    by (rule issues_length)
  have recommend: "recommendation ?R
       = (if issues ?R = [] then ''Suitable for irrigation''
          else ''Treatment needed before irrigation'')"
    by (simp only: assess_fields)
  from empty bounds count recommend show ?thesis by blast
qed

text \<open>
  A canal sample with pH 9.1 and sulfate 455 violates two bounds: it is not suitable and
  gets two issues, whatever the rendering of numbers.
\<close>

theorem suitability_strict_and_witness:
  "\<forall>fv fl. canal_sample ''ph'' = Some 9.1
     \<and> \<not> suitable (assess_irrigation_suitability fv fl canal_sample)
     \<and> length (issues (assess_irrigation_suitability fv fl canal_sample)) = 2
     \<and> recommendation (assess_irrigation_suitability fv fl canal_sample)
         = ''Treatment needed before irrigation''"
proof (intro allI)
  fix fv fl :: "real \<Rightarrow> string"
  let ?R = "assess_irrigation_suitability fv fl canal_sample"
  have ph: "canal_sample ''ph'' = Some 9.1"
    by (simp add: canal_sample_def)
  have two: "length (filter id (violated_bounds canal_sample)) = 2"
    by (simp add: violated_bounds_def above_def below_def canal_sample_def)
  from suitability_strict_and [of fv fl canal_sample] two
  have len: "length (issues ?R) = 2" by simp
  then have "issues ?R \<noteq> []" by auto
  with suitability_strict_and [of fv fl canal_sample]
  have "\<not> suitable ?R" and "recommendation ?R = ''Treatment needed before irrigation''"
    by simp_all
  with ph len show "canal_sample ''ph'' = Some 9.1 \<and> \<not> suitable ?R \<and> length (issues ?R) = 2
     \<and> recommendation ?R = ''Treatment needed before irrigation''"
    by blast
qed

lemma field_capacity_values:
  "field_capacity_col ''Loamy'' = 40" "field_capacity_col ''Clay'' = 50"
  "field_capacity_col ''Sandy'' = 20" "field_capacity_col ''Silt'' = 45"
  "field_capacity_col ''Clay Loam'' = 48" "field_capacity_col ''Sandy Loam'' = 28"
  "field_capacity_col ''Peaty'' = 60"
  by (simp_all add: field_capacity_col_def field_capacity_def)

lemma field_capacity_default:
  "soil_type \<notin> {''Loamy'', ''Clay'', ''Sandy'', ''Silt'', ''Clay Loam'', ''Sandy Loam'', ''Peaty''}
   \<Longrightarrow> field_capacity_col soil_type = 35"
  by (simp add: field_capacity_col_def field_capacity_def)

lemma clip_bounds: "lo \<le> hi \<Longrightarrow> lo \<le> clip x lo hi \<and> clip x lo hi \<le> hi"
  by (simp add: clip_def)

lemma clip_mono: "x \<le> y \<Longrightarrow> clip x lo hi \<le> clip y lo hi"
  by (auto simp: clip_def min_def max_def)

lemma clip_as_clamp: "lo \<le> hi \<Longrightarrow> clip x lo hi = max lo (min hi x)"
  by (auto simp: clip_def min_def max_def)

lemma clip_inside: "lo \<le> x \<Longrightarrow> x \<le> hi \<Longrightarrow> clip x lo hi = x"
  by (simp add: clip_def)

text \<open>
  C5. The irrigation need of a joined row is the quantity moisture deficit + 5 ETo
  - 0.8 rainfall clamped to 0..50, where the moisture deficit is half the field capacity of
  the soil type minus the current moisture, and the field capacity is 40 for Loamy, 50 for
  Clay, 20 for Sandy, 45 for Silt, 48 for Clay Loam, 28 for Sandy Loam, 60 for Peaty and 35
  for any other soil type. The need lies in 0..50, does not decrease when ETo grows and
  does not increase when rainfall grows.
\<close>

theorem irrigation_need_formula:
  "irrigation_need_mm soil_type moisture eto rainfall
     = max 0 (min 50 (moisture_deficit soil_type moisture + eto * 5 - rainfall * 0.8))
   \<and> moisture_deficit soil_type moisture = field_capacity_col soil_type * 0.5 - moisture
   \<and> field_capacity_col ''Loamy'' = 40 \<and> field_capacity_col ''Clay'' = 50
   \<and> field_capacity_col ''Sandy'' = 20 \<and> field_capacity_col ''Silt'' = 45
   \<and> field_capacity_col ''Clay Loam'' = 48 \<and> field_capacity_col ''Sandy Loam'' = 28
   \<and> field_capacity_col ''Peaty'' = 60
   \<and> (soil_type \<notin> {''Loamy'', ''Clay'', ''Sandy'', ''Silt'', ''Clay Loam'', ''Sandy Loam'',
                      ''Peaty''} \<longrightarrow> field_capacity_col soil_type = 35)
   \<and> 0 \<le> irrigation_need_mm soil_type moisture eto rainfall
   \<and> irrigation_need_mm soil_type moisture eto rainfall \<le> 50
   \<and> (eto \<le> eto' \<longrightarrow> irrigation_need_mm soil_type moisture eto rainfall
                        \<le> irrigation_need_mm soil_type moisture eto' rainfall)
   \<and> (rainfall \<le> rainfall' \<longrightarrow> irrigation_need_mm soil_type moisture eto rainfall'
                        \<le> irrigation_need_mm soil_type moisture eto rainfall)"
proof -
  have formula: "irrigation_need_mm soil_type moisture eto rainfall
     = max 0 (min 50 (moisture_deficit soil_type moisture + eto * 5 - rainfall * 0.8))"
    unfolding irrigation_need_mm_def by (rule clip_as_clamp) simp
  have range: "0 \<le> irrigation_need_mm soil_type moisture eto rainfall"
    "irrigation_need_mm soil_type moisture eto rainfall \<le> 50"
    unfolding irrigation_need_mm_def using clip_bounds [of 0 50] by simp_all
  have dflt: "soil_type \<notin> {''Loamy'', ''Clay'', ''Sandy'', ''Silt'', ''Clay Loam'', ''Sandy Loam'',
                      ''Peaty''} \<longrightarrow> field_capacity_col soil_type = 35"
    using field_capacity_default [of soil_type] by blast
  have up: "eto \<le> eto' \<longrightarrow> irrigation_need_mm soil_type moisture eto rainfall
                        \<le> irrigation_need_mm soil_type moisture eto' rainfall"
    unfolding irrigation_need_mm_def by (auto intro!: clip_mono)
  have down: "rainfall \<le> rainfall' \<longrightarrow> irrigation_need_mm soil_type moisture eto rainfall'
                        \<le> irrigation_need_mm soil_type moisture eto rainfall"
    unfolding irrigation_need_mm_def by (auto intro!: clip_mono)
  have deficit: "moisture_deficit soil_type moisture
      = field_capacity_col soil_type * 0.5 - moisture"
    by (simp add: moisture_deficit_def)
  show ?thesis
    by (intro conjI formula deficit field_capacity_values dflt range up down)
qed

text \<open>
  A sandy row with moisture 5, ETo 4 and rainfall 2 needs 10 - 5 + 20 - 1.6 = 23.4 mm, and
  no less with ETo 6; the unknown soil type Volcanic has field capacity 35.
\<close>

theorem irrigation_need_formula_witness:
  "''Volcanic'' \<notin> {''Loamy'', ''Clay'', ''Sandy'', ''Silt'', ''Clay Loam'', ''Sandy Loam'', ''Peaty''}
   \<and> field_capacity_col ''Volcanic'' = 35
   \<and> (4::real) \<le> 6
   \<and> irrigation_need_mm ''Sandy'' 5 4 2 \<le> irrigation_need_mm ''Sandy'' 5 6 2
   \<and> irrigation_need_mm ''Sandy'' 5 4 2 = 23.4"
proof -
  have other: "''Volcanic'' \<notin> {''Loamy'', ''Clay'', ''Sandy'', ''Silt'', ''Clay Loam'',
      ''Sandy Loam'', ''Peaty''}"
    by simp
  from irrigation_need_formula [of "''Volcanic''" 0 0 0 0 0]
  have "''Volcanic'' \<notin> {''Loamy'', ''Clay'', ''Sandy'', ''Silt'', ''Clay Loam'',
      ''Sandy Loam'', ''Peaty''} \<longrightarrow> field_capacity_col ''Volcanic'' = 35"
    by (elim conjE)
  with other have dflt: "field_capacity_col ''Volcanic'' = 35"
    by (rule rev_mp)
  have le: "(4::real) \<le> 6" by simp
  from irrigation_need_formula [of "''Sandy''" 5 4 2 6 2]
  have "(4::real) \<le> 6 \<longrightarrow>
      irrigation_need_mm ''Sandy'' 5 4 2 \<le> irrigation_need_mm ''Sandy'' 5 6 2"
    by (elim conjE)
  with le have mono: "irrigation_need_mm ''Sandy'' 5 4 2 \<le> irrigation_need_mm ''Sandy'' 5 6 2"
    by (rule rev_mp)
  note sandy = irrigation_need_formula [of "''Sandy''" 5 4 2 4 2]
  from sandy have need: "irrigation_need_mm ''Sandy'' 5 4 2
      = max 0 (min 50 (moisture_deficit ''Sandy'' 5 + 4 * 5 - 2 * 0.8))"
    by (elim conjE)
  from sandy have deficit: "moisture_deficit ''Sandy'' 5 = field_capacity_col ''Sandy'' * 0.5 - 5"
    by (elim conjE)
  from sandy have capacity: "field_capacity_col ''Sandy'' = 20"
    by (elim conjE)
  from need deficit capacity
  have val: "irrigation_need_mm ''Sandy'' 5 4 2 = 23.4" by simp
  show ?thesis
    by (intro conjI other dflt le mono val)
qed

subsection \<open>Rounding and the soil health score\<close>

lemma round_half_even_cases:
  "round_half_even x = \<lfloor>x\<rfloor> \<and> x - of_int \<lfloor>x\<rfloor> \<le> 1/2
   \<or> round_half_even x = \<lfloor>x\<rfloor> + 1 \<and> x - of_int \<lfloor>x\<rfloor> \<ge> 1/2"
  by (simp add: round_half_even_def Let_def)

lemma round_half_even_error: "\<bar>of_int (round_half_even x) - x\<bar> \<le> 1/2"
proof -
  have "of_int \<lfloor>x\<rfloor> \<le> x" "x < of_int \<lfloor>x\<rfloor> + 1" by linarith+
  with round_half_even_cases [of x] show ?thesis by auto
qed

lemma round_half_even_of_int: "round_half_even (of_int k) = k"
  by (simp add: round_half_even_def)

lemma round_half_even_mono:
  assumes "x \<le> y"
  shows "round_half_even x \<le> round_half_even y"
proof (rule ccontr)
  assume "\<not> round_half_even x \<le> round_half_even y"
  then have gt: "round_half_even y + 1 \<le> round_half_even x" by simp
  then have "(of_int (round_half_even y) :: real) + 1 \<le> of_int (round_half_even x)"
    by (metis of_int_1 of_int_add of_int_le_iff)
  with round_half_even_error [of x] round_half_even_error [of y] assms
  have "x = y" by (simp add: abs_le_iff)
  with gt show False by simp
qed


lemma py_round_mono: "x \<le> y \<Longrightarrow> py_round x n \<le> py_round y n"
  unfolding py_round_def
  by (intro divide_right_mono) (simp_all add: round_half_even_mono)

lemma py_round_grid: "py_round (of_int k / 10 ^ n) n = of_int k / 10 ^ n"
  by (simp add: py_round_def round_half_even_of_int)

lemma py_round_between:
  assumes "of_int a / 10 ^ n \<le> x" "x \<le> of_int b / 10 ^ n"
  shows "of_int a / 10 ^ n \<le> py_round x n \<and> py_round x n \<le> of_int b / 10 ^ n"
  using py_round_mono [OF assms(1), of n] py_round_mono [OF assms(2), of n]
  by (simp add: py_round_grid)

lemma py_round_clip:
  "of_int a / 10 ^ n \<le> py_round (clip x (of_int a / 10 ^ n) (of_int b / 10 ^ n)) n
   \<and> py_round (clip x (of_int a / 10 ^ n) (of_int b / 10 ^ n)) n \<le> of_int b / 10 ^ n"
  if "a \<le> b"
proof -
  from that have "(of_int a :: real) / 10 ^ n \<le> of_int b / 10 ^ n"
    by (simp add: divide_right_mono)
  then have "of_int a / 10 ^ n \<le> clip x (of_int a / 10 ^ n) (of_int b / 10 ^ n)
      \<and> clip x (of_int a / 10 ^ n) (of_int b / 10 ^ n) \<le> of_int b / 10 ^ n"
    by (rule clip_bounds)
  then show ?thesis using py_round_between by blast
qed

lemma npk_score_range:
  "0 \<le> n_score n \<and> n_score n \<le> 10" "0 \<le> p_score p \<and> p_score p \<le> 10"
  "0 \<le> k_score k \<and> k_score k \<le> 10"
  by (simp_all add: n_score_def p_score_def k_score_def)

lemma tier_points_range:
  "0 \<le> ph_points ph \<and> ph_points ph \<le> 20" "5 \<le> om_points om \<and> om_points om \<le> 20"
  "3 \<le> moisture_points m \<and> moisture_points m \<le> 15" "2 \<le> ec_points ec \<and> ec_points ec \<le> 15"
  by (simp_all add: ph_points_def om_points_def moisture_points_def ec_points_def)

lemma soil_score_sum_range:
  "10 \<le> soil_score_sum n p k ph om m ec \<and> soil_score_sum n p k ph om m ec \<le> 100"
  using npk_score_range(1) [of n] npk_score_range(2) [of p] npk_score_range(3) [of k]
    tier_points_range(1) [of ph] tier_points_range(2) [of om] tier_points_range(3) [of m]
    tier_points_range(4) [of ec]
  unfolding soil_score_sum_def by linarith

lemma spec_soil_health_score_sum:
  "spec_soil_health_score n p k ph om m ec = soil_score_sum n p k ph om m ec"
proof -
  have "spec_soil_health_score n p k ph om m ec = clip (soil_score_sum n p k ph om m ec) 0 100"
    by (simp add: spec_soil_health_score_def soil_score_sum_def n_score_def p_score_def
        k_score_def)
  also have "\<dots> = soil_score_sum n p k ph om m ec"
    using soil_score_sum_range [of n p k ph om m ec] by (intro clip_inside) linarith+
  finally show ?thesis .
qed


lemma round_half_even_near:
  assumes "\<bar>y - of_int k\<bar> < 1/2"
  shows "round_half_even y = k"
proof -
  have "\<bar>(of_int (round_half_even y) :: real) - of_int k\<bar> < 1"
    using round_half_even_error [of y] assms by linarith
  then have "\<bar>(of_int (round_half_even y - k) :: real)\<bar> < 1" by simp
  then have "\<bar>round_half_even y - k\<bar> < 1"
    by (metis of_int_abs of_int_less_1_iff)
  then show ?thesis by simp
qed

lemma py_round_near:
  assumes "\<bar>x * 10 ^ n - of_int k\<bar> < 1/2"
  shows "py_round x n = of_int k / 10 ^ n"
  by (simp add: py_round_def round_half_even_near [OF assms])



lemma generate_soil_health_score_present:
  assumes "row ''nitrogen_mg_kg'' = Some n" "row ''phosphorus_mg_kg'' = Some p"
    "row ''potassium_mg_kg'' = Some k" "row ''ph'' = Some ph"
    "row ''organic_matter_pct'' = Some om" "row ''moisture_pct'' = Some m"
    "row ''ec_mscm'' = Some ec"
  shows "generate_soil_health_score delta row
      = Some (clip (py_round (soil_score_sum n p k ph om m ec + delta) 1) 0 100)"
  using assms by (simp add: generate_soil_health_score_def)






lemma soil_row_tie_fields:
  "soil_row_tie ''nitrogen_mg_kg'' = Some 80" "soil_row_tie ''phosphorus_mg_kg'' = Some 42.75"
  "soil_row_tie ''potassium_mg_kg'' = Some 60" "soil_row_tie ''ph'' = Some 6.5"
  "soil_row_tie ''organic_matter_pct'' = Some 4" "soil_row_tie ''moisture_pct'' = Some 30"
  "soil_row_tie ''ec_mscm'' = Some 1.5"
  by (simp_all add: soil_row_tie_def)


lemma spec_score_tie: "spec_soil_health_score 80 42.75 60 6.5 4 30 1.5 = 99.55"
  by (simp add: spec_soil_health_score_def ph_points_def om_points_def moisture_points_def
      ec_points_def clip_def)



text \<open>
  On the tie row the rounding error decides. With no error the sum 99.55 goes to the even
  neighbour 99.6; the double sum of the program lies 2.84e-15 below 99.55 and goes to 99.5.
\<close>

lemma soil_score_tie:
  "generate_soil_health_score 0 soil_row_tie = Some 99.6"
  "generate_soil_health_score (- 284 / 10 ^ 17) soil_row_tie = Some 99.5"
proof -
  have code: "generate_soil_health_score d soil_row_tie = Some (clip (py_round (99.55 + d) 1) 0 100)"
    for d
    using generate_soil_health_score_present [OF soil_row_tie_fields, of d]
    unfolding spec_soil_health_score_sum [symmetric] spec_score_tie .
  have "py_round (99.55 + 0) 1 = 99.6"
    by (simp add: py_round_def round_half_even_def Let_def)
  then show "generate_soil_health_score 0 soil_row_tie = Some 99.6"
    unfolding code by (simp add: clip_def)
  have "\<bar>((99.55::real) + (- 284 / 10 ^ 17)) * 10 ^ 1 - of_int 995\<bar> < 1 / 2"
    by simp
  then have "py_round (99.55 + (- 284 / 10 ^ 17)) 1 = of_int 995 / 10 ^ 1"
    by (rule py_round_near)
  then show "generate_soil_health_score (- 284 / 10 ^ 17) soil_row_tie = Some 99.5"
    unfolding code by (simp add: clip_def)
qed



subsection \<open>Evapotranspiration estimate\<close>





lemma sqrt_100: "sqrt 100 = 10"
  by (rule real_sqrt_unique) simp_all






text \<open>
  At 22.2 degrees, 50% humidity, solar radiation 99 and wind 25 the exact product 0.575 is
  a tie between 0.57 and 0.58, and the rounding error decides. With no error it goes to
  the even neighbour 0.58; the double product of the program lies 4.4e-17 below 0.575 and
  goes to 0.57.
\<close>

lemma eto_tie:
  "estimate_eto 0 22.2 50 99 25 = 0.58"
  "estimate_eto (- 444 / 10 ^ 19) 22.2 50 99 25 = 0.57"
proof -
  have code: "estimate_eto d 22.2 50 99 25 = py_round (clip (0.575 + d) 0 15) 2" for d
    by (simp add: estimate_eto_def Let_def sqrt_100)
  show "estimate_eto 0 22.2 50 99 25 = 0.58"
    unfolding code by (simp add: clip_def py_round_def round_half_even_def Let_def)
  have inside: "clip ((0.575::real) + (- 444 / 10 ^ 19)) 0 15 = 0.575 + (- 444 / 10 ^ 19)"
    by (intro clip_inside) simp_all
  have "py_round ((0.575::real) + (- 444 / 10 ^ 19)) 2 = of_int 57 / 10 ^ 2"
    by (intro py_round_near) simp
  then show "estimate_eto (- 444 / 10 ^ 19) 22.2 50 99 25 = 0.57"
    unfolding code inside by simp
qed




subsection \<open>Generated tables\<close>

lemma loc_set_nan_rows:
  assumes res: "loc_set_nan msk col set_nan df = Inr df'" and mem: "r' \<in> set (rows df')"
  shows "\<exists>r \<in> set (rows df). r' = r \<or> r' = set_nan r"
proof -
  from res have "rows df' = map (\<lambda>(hit, r). if hit then set_nan r else r) (zip msk (rows df))"
    by (auto simp: loc_set_nan_def split: if_splits)
  with mem obtain hit r where "(hit, r) \<in> set (zip msk (rows df))"
    and r': "r' = (if hit then set_nan r else r)"
    by auto
  then have "r \<in> set (rows df)" by (auto dest: set_zip_rightD)
  with r' show ?thesis by (cases hit) auto
qed

lemma loc_set_nan_keeps:
  assumes res: "loc_set_nan msk col set_nan df = Inr df'"
    and all: "\<And>r. r \<in> set (rows df) \<Longrightarrow> P r"
    and keep: "\<And>r. P r \<Longrightarrow> P (set_nan r)"
    and mem: "r' \<in> set (rows df')"
  shows "P r'"
proof -
  from loc_set_nan_rows [OF res mem] obtain r where
    r: "r \<in> set (rows df)" and eq: "r' = r \<or> r' = set_nan r"
    by blast
  from all [OF r] have "P r" .
  with keep [of r] eq show ?thesis by blast
qed

lemma inject_missing_step:
  assumes "inject_missing ((col, set_nan) # cols) u rate n df = Inr df'"
  obtains df1 where "loc_set_nan (map (\<lambda>i. u col i < rate) [0..<n]) col set_nan df = Inr df1"
    and "inject_missing cols u rate n df1 = Inr df'"
proof (cases "loc_set_nan (map (\<lambda>i. u col i < rate) [0..<n]) col set_nan df")
  case (Inl e)
  with assms show ?thesis by simp
next
  case (Inr df1)
  with assms that show ?thesis by simp
qed

lemma inject_missing_preserves:
  assumes "inject_missing cols u rate n df = Inr df'"
    and "\<And>r. r \<in> set (rows df) \<Longrightarrow> P r"
    and "\<And>col set_nan r. (col, set_nan) \<in> set cols \<Longrightarrow> P r \<Longrightarrow> P (set_nan r)"
    and "r' \<in> set (rows df')"
  shows "P r'"
  using assms
proof (induction cols arbitrary: df)
  case Nil
  then show ?case by simp
next
  case (Cons c cols)
  obtain col set_nan where c: "c = (col, set_nan)" by (cases c)
  from Cons.prems(1) obtain df1 where
    step: "loc_set_nan (map (\<lambda>i. u col i < rate) [0..<n]) col set_nan df = Inr df1"
    and rest: "inject_missing cols u rate n df1 = Inr df'"
    unfolding c by (rule inject_missing_step)
  have keep: "P (set_nan r)" if "P r" for r
    using Cons.prems(3) [of col set_nan r] that c by simp
  have all1: "P r" if "r \<in> set (rows df1)" for r
    using step Cons.prems(2) keep that by (rule loc_set_nan_keeps)
  have keeps: "P (sn r)" if "(cl, sn) \<in> set cols" "P r" for cl sn r
    using Cons.prems(3) [of cl sn r] that by simp
  show ?case
    using rest all1 keeps Cons.prems(4) by (rule Cons.IH)
qed

lemma loc_set_nan_length:
  "loc_set_nan msk col set_nan df = Inr df' \<Longrightarrow> length msk = length (rows df) \<Longrightarrow>
   length (rows df') = length (rows df)"
  by (auto simp: loc_set_nan_def split: if_splits)

lemma loc_set_nan_ok:
  "rows df \<noteq> [] \<Longrightarrow> \<exists>df'. loc_set_nan msk col set_nan df = Inr df'"
  by (simp add: loc_set_nan_def)

lemma inject_missing_ok:
  assumes "length (rows df) = n" "0 < n"
  shows "\<exists>df'. inject_missing cols u rate n df = Inr df' \<and> length (rows df') = n"
  using assms
proof (induction cols arbitrary: df)
  case Nil
  then show ?case by simp
next
  case (Cons c cols)
  obtain col set_nan where c: "c = (col, set_nan)" by (cases c)
  let ?msk = "map (\<lambda>i. u col i < rate) [0..<n]"
  from Cons.prems have "rows df \<noteq> []" by auto
  then obtain df1 where step: "loc_set_nan ?msk col set_nan df = Inr df1"
    using loc_set_nan_ok by blast
  have "length ?msk = length (rows df)" using Cons.prems(1) by simp
  with step have "length (rows df1) = length (rows df)" by (rule loc_set_nan_length)
  with Cons.prems(1) have "length (rows df1) = n" by simp
  from Cons.IH [OF this Cons.prems(2)] obtain df' where
    "inject_missing cols u rate n df1 = Inr df'" "length (rows df') = n"
    by blast
  with step c show ?case by simp
qed

lemma inject_missing_empty:
  "inject_missing ((col, set_nan) # cols) u rate n (DataFrame keys []) = Inl ValueError"
  by (simp add: loc_set_nan_def DataFrame_def)

lemma clip_in_range: "lo \<le> hi \<Longrightarrow> in_range lo hi (clip x lo hi)"
  by (simp add: in_range_def clip_def)

lemma soil_record_fields:
  "s_ph (soil_record ts zn z) = clip (base_pH (ZONE_PROFILES zn) + z_pH z) 4.0 9.0"
  "s_moisture_pct (soil_record ts zn z) =
     clip (base_moisture (ZONE_PROFILES zn) * moisture_seasonal (tm_yday ts) + z_moisture z) 2 80"
  "s_soil_temperature_c (soil_record ts zn z) =
     clip (15 + 15 * seasonal (tm_yday ts) + z_temperature z) 5 45"
  "s_organic_matter_pct (soil_record ts zn z) =
     clip (z_OM z + (if zp_soil_type (ZONE_PROFILES zn) = ''Peaty'' then 1 else 0)) 0.5 12.0"
  "s_ec_mscm (soil_record ts zn z) = Some (clip (z_EC z) 0.1 5.0)"
  by (simp_all add: soil_record_def Let_def)

lemma soil_record_bounds: "soil_bounds (soil_record ts zn z)"
  unfolding soil_bounds_def soil_record_fields cell_within_or_missing_def option.case
  by (intro conjI clip_in_range) simp_all

lemma water_record_fields:
  "w_ph (water_record ts src y) = py_round (clip (f_ph (source_factors src) + y_ph y) 4.5 9.5) 2"
  "w_dissolved_oxygen_mg_l (water_record ts src y) =
     Some (py_round (clip (f_do (source_factors src) + y_do y) 1 14) 2)"
  by (simp_all add: water_record_def Let_def)

lemma py_round_clip_ph: "in_range 4.5 9.5 (py_round (clip x 4.5 9.5) 2)"
  using py_round_clip [where a = 450 and b = 950 and n = 2 and x = x]
  by (simp add: in_range_def)

lemma py_round_clip_do: "in_range 1 14 (py_round (clip x 1 14) 2)"
  using py_round_clip [where a = 100 and b = 1400 and n = 2 and x = x]
  by (simp add: in_range_def)

lemma water_record_bounds: "water_bounds (water_record ts src y)"
  unfolding water_bounds_def water_record_fields cell_within_or_missing_def option.case
  by (intro conjI py_round_clip_ph py_round_clip_do)

lemma soil_bounds_set_nan:
  "soil_bounds r \<Longrightarrow> soil_bounds (r\<lparr>s_nitrogen_mg_kg := None\<rparr>)"
  "soil_bounds r \<Longrightarrow> soil_bounds (r\<lparr>s_phosphorus_mg_kg := None\<rparr>)"
  "soil_bounds r \<Longrightarrow> soil_bounds (r\<lparr>s_ec_mscm := None\<rparr>)"
  by (simp_all add: soil_bounds_def cell_within_or_missing_def)

lemma water_bounds_set_nan:
  "water_bounds r \<Longrightarrow> water_bounds (r\<lparr>w_turbidity_ntu := None\<rparr>)"
  "water_bounds r \<Longrightarrow> water_bounds (r\<lparr>w_dissolved_oxygen_mg_l := None\<rparr>)"
  by (simp_all add: water_bounds_def cell_within_or_missing_def)

lemma soil_records_bounds: "r \<in> set (soil_records n d) \<Longrightarrow> soil_bounds r"
  by (auto simp: soil_records_def Let_def soil_record_bounds)

lemma water_records_bounds: "r \<in> set (water_records n d) \<Longrightarrow> water_bounds r"
  by (auto simp: water_records_def Let_def water_record_bounds)

lemma soil_records_length: "length (soil_records n d) = n"
  by (simp add: soil_records_def Let_def)

lemma water_records_length: "length (water_records n d) = n"
  by (simp add: water_records_def Let_def)

lemma DataFrame_rows: "rows (DataFrame keys records) = records"
  by (simp add: DataFrame_def)

lemma generate_soil_data_bounds:
  assumes "generate_soil_data n d = Inr df" "r \<in> set (rows df)"
  shows "soil_bounds r"
proof (rule inject_missing_preserves [where P = soil_bounds,
      OF assms(1) [unfolded generate_soil_data_def] _ _ assms(2)])
  fix r assume "r \<in> set (rows (DataFrame soil_columns (soil_records n d)))"
  then show "soil_bounds r" by (simp add: DataFrame_rows soil_records_bounds)
next
  fix col set_nan r
  assume "(col, set_nan) \<in> set [(''nitrogen_mg_kg'', \<lambda>r::soil_reading. r\<lparr>s_nitrogen_mg_kg := None\<rparr>),
        (''phosphorus_mg_kg'', \<lambda>r. r\<lparr>s_phosphorus_mg_kg := None\<rparr>),
        (''ec_mscm'', \<lambda>r. r\<lparr>s_ec_mscm := None\<rparr>)]" and "soil_bounds r"
  then show "soil_bounds (set_nan r)" by (auto simp: soil_bounds_set_nan)
qed

lemma generate_water_data_bounds:
  assumes "generate_water_data n d = Inr df" "r \<in> set (rows df)"
  shows "water_bounds r"
proof (rule inject_missing_preserves [where P = water_bounds,
      OF assms(1) [unfolded generate_water_data_def] _ _ assms(2)])
  fix r assume "r \<in> set (rows (DataFrame water_columns (water_records n d)))"
  then show "water_bounds r" by (simp add: DataFrame_rows water_records_bounds)
next
  fix col set_nan r
  assume "(col, set_nan) \<in> set [(''turbidity_ntu'', \<lambda>r::water_reading. r\<lparr>w_turbidity_ntu := None\<rparr>),
        (''dissolved_oxygen_mg_l'', \<lambda>r. r\<lparr>w_dissolved_oxygen_mg_l := None\<rparr>)]"
    and "water_bounds r"
  then show "water_bounds (set_nan r)" by (auto simp: water_bounds_set_nan)
qed

lemma generate_soil_data_ok:
  "0 < n \<Longrightarrow> \<exists>df. generate_soil_data n d = Inr df \<and> length (rows df) = n"
  unfolding generate_soil_data_def
  by (rule inject_missing_ok) (simp_all add: DataFrame_rows soil_records_length)

lemma generate_water_data_ok:
  "0 < n \<Longrightarrow> \<exists>df. generate_water_data n d = Inr df \<and> length (rows df) = n"
  unfolding generate_water_data_def
  by (rule inject_missing_ok) (simp_all add: DataFrame_rows water_records_length)

lemma soil_records_zero: "soil_records 0 d = []"
  by (simp add: soil_records_def)

lemma water_records_zero: "water_records 0 d = []"
  by (simp add: water_records_def)

lemma generate_soil_zero: "generate_soil_data 0 d = Inl ValueError"
  unfolding generate_soil_data_def soil_records_zero by (rule inject_missing_empty)

lemma generate_water_zero: "generate_water_data 0 d = Inl ValueError"
  unfolding generate_water_data_def water_records_zero by (rule inject_missing_empty)

lemma generate_weather_zero: "generate_weather_data 0 d = Inr \<lparr>columns = [], rows = []\<rparr>"
  by (simp add: generate_weather_data_def DataFrame_def)

lemma soil_one_record:
  "generate_soil_data 1 dropout_soil_draws =
     Inr \<lparr>columns = soil_columns,
          rows = [(soil_record 1896 Zone_1 quiet_soil_noise)\<lparr>s_ec_mscm := None\<rparr>]\<rparr>"
  by (simp add: generate_soil_data_def soil_records_def dropout_soil_draws_def DataFrame_def
      loc_set_nan_def soil_columns_def)

lemma water_one_record:
  "generate_water_data 1 dropout_water_draws =
     Inr \<lparr>columns = water_columns,
          rows = [(water_record 1896 River quiet_water_noise)\<lparr>w_dissolved_oxygen_mg_l := None\<rparr>]\<rparr>"
  by (simp add: generate_water_data_def water_records_def dropout_water_draws_def DataFrame_def
      loc_set_nan_def water_columns_def)

lemma soil_one_rows:
  "table_rows (generate_soil_data 1 dropout_soil_draws)
     = [(soil_record 1896 Zone_1 quiet_soil_noise)\<lparr>s_ec_mscm := None\<rparr>]"
  unfolding soil_one_record table_rows_def by simp

lemma water_one_rows:
  "table_rows (generate_water_data 1 dropout_water_draws)
     = [(water_record 1896 River quiet_water_noise)\<lparr>w_dissolved_oxygen_mg_l := None\<rparr>]"
  unfolding water_one_record table_rows_def by simp

text \<open>
  C8 (amended). Whatever the random draws, every row of a generated soil table has its
  pH in 4.0..9.0, moisture in 2..80, soil temperature in 5..45 and organic matter in
  0.5..12.0, and its electrical conductivity is either the missing marker or in 0.1..5.0;
  every row of a generated water table has its pH in 4.5..9.5 and its dissolved oxygen
  either missing or in 1..14. For a positive record count both generators return a table
  of that many rows. In the record loop each of the seven fields is the clamp, at exactly
  these bounds, of its baseline plus the noise drawn for it; the two water values are
  rounded to two decimals afterwards, which keeps them inside.
\<close>

theorem generated_fields_bounded:
  "(generate_soil_data n d = Inr df \<and> r \<in> set (rows df) \<longrightarrow>
      4.0 \<le> s_ph r \<and> s_ph r \<le> 9.0
      \<and> 2 \<le> s_moisture_pct r \<and> s_moisture_pct r \<le> 80
      \<and> 5 \<le> s_soil_temperature_c r \<and> s_soil_temperature_c r \<le> 45
      \<and> 0.5 \<le> s_organic_matter_pct r \<and> s_organic_matter_pct r \<le> 12.0
      \<and> (case s_ec_mscm r of None \<Rightarrow> True | Some v \<Rightarrow> 0.1 \<le> v \<and> v \<le> 5.0))
   \<and> (generate_water_data n' d' = Inr df' \<and> r' \<in> set (rows df') \<longrightarrow>
      4.5 \<le> w_ph r' \<and> w_ph r' \<le> 9.5
      \<and> (case w_dissolved_oxygen_mg_l r' of None \<Rightarrow> True | Some v \<Rightarrow> 1 \<le> v \<and> v \<le> 14))
   \<and> (0 < n \<longrightarrow> (\<exists>t. generate_soil_data n d = Inr t \<and> length (rows t) = n))
   \<and> (0 < n' \<longrightarrow> (\<exists>t. generate_water_data n' d' = Inr t \<and> length (rows t) = n'))
   \<and> s_ph (soil_record ts zn z) = clip (base_pH (ZONE_PROFILES zn) + z_pH z) 4.0 9.0
   \<and> s_moisture_pct (soil_record ts zn z) =
       clip (base_moisture (ZONE_PROFILES zn) * moisture_seasonal (tm_yday ts) + z_moisture z) 2 80
   \<and> s_soil_temperature_c (soil_record ts zn z) =
       clip (15 + 15 * seasonal (tm_yday ts) + z_temperature z) 5 45
   \<and> s_organic_matter_pct (soil_record ts zn z) =
       clip (z_OM z + (if zp_soil_type (ZONE_PROFILES zn) = ''Peaty'' then 1 else 0)) 0.5 12.0
   \<and> s_ec_mscm (soil_record ts zn z) = Some (clip (z_EC z) 0.1 5.0)
   \<and> w_ph (water_record ts src y)
       = py_round (clip (f_ph (source_factors src) + y_ph y) 4.5 9.5) 2
   \<and> w_dissolved_oxygen_mg_l (water_record ts src y)
       = Some (py_round (clip (f_do (source_factors src) + y_do y) 1 14) 2)"
proof -
  have soil: "generate_soil_data n d = Inr df \<and> r \<in> set (rows df) \<longrightarrow>
      4.0 \<le> s_ph r \<and> s_ph r \<le> 9.0
      \<and> 2 \<le> s_moisture_pct r \<and> s_moisture_pct r \<le> 80
      \<and> 5 \<le> s_soil_temperature_c r \<and> s_soil_temperature_c r \<le> 45
      \<and> 0.5 \<le> s_organic_matter_pct r \<and> s_organic_matter_pct r \<le> 12.0
      \<and> (case s_ec_mscm r of None \<Rightarrow> True | Some v \<Rightarrow> 0.1 \<le> v \<and> v \<le> 5.0)"
  proof
    assume "generate_soil_data n d = Inr df \<and> r \<in> set (rows df)"
    then have "soil_bounds r" using generate_soil_data_bounds by blast
    then show "4.0 \<le> s_ph r \<and> s_ph r \<le> 9.0
      \<and> 2 \<le> s_moisture_pct r \<and> s_moisture_pct r \<le> 80
      \<and> 5 \<le> s_soil_temperature_c r \<and> s_soil_temperature_c r \<le> 45
      \<and> 0.5 \<le> s_organic_matter_pct r \<and> s_organic_matter_pct r \<le> 12.0
      \<and> (case s_ec_mscm r of None \<Rightarrow> True | Some v \<Rightarrow> 0.1 \<le> v \<and> v \<le> 5.0)"
      by (auto simp: soil_bounds_def in_range_def cell_within_or_missing_def
          split: option.splits)
  qed
  have water: "generate_water_data n' d' = Inr df' \<and> r' \<in> set (rows df') \<longrightarrow>
      4.5 \<le> w_ph r' \<and> w_ph r' \<le> 9.5
      \<and> (case w_dissolved_oxygen_mg_l r' of None \<Rightarrow> True | Some v \<Rightarrow> 1 \<le> v \<and> v \<le> 14)"
  proof
    assume "generate_water_data n' d' = Inr df' \<and> r' \<in> set (rows df')"
    then have "water_bounds r'" using generate_water_data_bounds by blast
    then show "4.5 \<le> w_ph r' \<and> w_ph r' \<le> 9.5
      \<and> (case w_dissolved_oxygen_mg_l r' of None \<Rightarrow> True | Some v \<Rightarrow> 1 \<le> v \<and> v \<le> 14)"
      by (auto simp: water_bounds_def in_range_def cell_within_or_missing_def
          split: option.splits)
  qed
  have soil_total: "0 < n \<longrightarrow> (\<exists>t. generate_soil_data n d = Inr t \<and> length (rows t) = n)"
    using generate_soil_data_ok [of n d] by blast
  have water_total: "0 < n' \<longrightarrow> (\<exists>t. generate_water_data n' d' = Inr t \<and> length (rows t) = n')"
    using generate_water_data_ok [of n' d'] by blast
  show ?thesis
    by (intro conjI soil water soil_total water_total soil_record_fields
        water_record_fields)
qed

text \<open>
  One soil record and one water record from the sample draws: both tables have one row,
  and the row satisfies the bounds.
\<close>

theorem generated_fields_bounded_witness:
  "(0::nat) < 1
   \<and> length (table_rows (generate_soil_data 1 dropout_soil_draws)) = 1
   \<and> list_all soil_bounds (table_rows (generate_soil_data 1 dropout_soil_draws))
   \<and> length (table_rows (generate_water_data 1 dropout_water_draws)) = 1
   \<and> list_all water_bounds (table_rows (generate_water_data 1 dropout_water_draws))"
proof -
  let ?soil = "\<lparr>columns = soil_columns,
      rows = [(soil_record 1896 Zone_1 quiet_soil_noise)\<lparr>s_ec_mscm := None\<rparr>]\<rparr>"
  let ?sr = "(soil_record 1896 Zone_1 quiet_soil_noise)\<lparr>s_ec_mscm := None\<rparr>"
  let ?water = "\<lparr>columns = water_columns,
      rows = [(water_record 1896 River quiet_water_noise)\<lparr>w_dissolved_oxygen_mg_l := None\<rparr>]\<rparr>"
  let ?wr = "(water_record 1896 River quiet_water_noise)\<lparr>w_dissolved_oxygen_mg_l := None\<rparr>"
  note T = generated_fields_bounded [where n = 1 and d = dropout_soil_draws and df = ?soil
      and r = ?sr and n' = 1 and d' = dropout_water_draws and df' = ?water and r' = ?wr
      and ts = 0 and zn = Zone_1 and z = quiet_soil_noise and src = River
      and y = quiet_water_noise]
  have one: "(0::nat) < 1" by simp
  have hs: "generate_soil_data 1 dropout_soil_draws = Inr ?soil \<and> ?sr \<in> set (rows ?soil)"
    by (rule conjI [OF soil_one_record]) simp
  have hw: "generate_water_data 1 dropout_water_draws = Inr ?water \<and> ?wr \<in> set (rows ?water)"
    by (rule conjI [OF water_one_record]) simp
  from T hs have "4.0 \<le> s_ph ?sr \<and> s_ph ?sr \<le> 9.0
      \<and> 2 \<le> s_moisture_pct ?sr \<and> s_moisture_pct ?sr \<le> 80
      \<and> 5 \<le> s_soil_temperature_c ?sr \<and> s_soil_temperature_c ?sr \<le> 45
      \<and> 0.5 \<le> s_organic_matter_pct ?sr \<and> s_organic_matter_pct ?sr \<le> 12.0
      \<and> (case s_ec_mscm ?sr of None \<Rightarrow> True | Some v \<Rightarrow> 0.1 \<le> v \<and> v \<le> 5.0)"
    by blast
  then have sb: "soil_bounds ?sr"
    by (auto simp: soil_bounds_def in_range_def cell_within_or_missing_def
        split: option.splits)
  from T hw have "4.5 \<le> w_ph ?wr \<and> w_ph ?wr \<le> 9.5
      \<and> (case w_dissolved_oxygen_mg_l ?wr of None \<Rightarrow> True | Some v \<Rightarrow> 1 \<le> v \<and> v \<le> 14)"
    by blast
  then have wb: "water_bounds ?wr"
    by (auto simp: water_bounds_def in_range_def cell_within_or_missing_def
        split: option.splits)
  show ?thesis
    unfolding soil_one_rows water_one_rows using one sb wb by simp
qed

text \<open>
  Read strictly, the bounds fail on the same tables: the dropout draw replaced the
  electrical conductivity of the soil row and the dissolved oxygen of the water row by the
  missing marker, which lies in no interval.
\<close>

theorem generated_fields_counterexample:
  "map s_ec_mscm (table_rows (generate_soil_data 1 dropout_soil_draws)) = [None]
   \<and> \<not> list_all (\<lambda>r. cell_within 0.1 5.0 (s_ec_mscm r))
         (table_rows (generate_soil_data 1 dropout_soil_draws))
   \<and> map w_dissolved_oxygen_mg_l (table_rows (generate_water_data 1 dropout_water_draws)) = [None]
   \<and> \<not> list_all (\<lambda>r. cell_within 1 14 (w_dissolved_oxygen_mg_l r))
         (table_rows (generate_water_data 1 dropout_water_draws))"
  unfolding soil_one_rows water_one_rows by (simp add: cell_within_def)

text \<open>
  C9. With zero records the record loops of the soil and the water generator produce no
  record, the frame built from them has no column, and the first injection of dropouts
  into it raises \<open>ValueError\<close>: no table is returned. The weather generator, which injects
  nothing, returns the empty table.
\<close>

theorem zero_records_raise:
  "generate_soil_data 0 d = Inl ValueError
   \<and> generate_water_data 0 d' = Inl ValueError
   \<and> generate_weather_data 0 d'' = Inr \<lparr>columns = [], rows = []\<rparr>
   \<and> soil_records 0 d = [] \<and> water_records 0 d' = []"
  by (intro conjI generate_soil_zero generate_water_zero generate_weather_zero
      soil_records_zero water_records_zero)

end
